theory Spec2Isabelle
  imports
    Main
    "HOL-Library.Char_ord"
    "HOL-Library.List_Lexorder"
    "HOL-Library.Product_Lexorder"
    "HOL-Library.Multiset"
    "HOL-Library.AList"
begin

section \<open>Announcements endpoints: data model\<close>

text \<open>
  The module \<^verbatim>\<open>backend/routers/announcements.py\<close> offers five handlers over two
  collections of a document store. Documents are dictionaries; the values that occur in
  them here are \<^verbatim>\<open>None\<close>, strings and the store's object identifiers.
\<close>

datatype objectid = OID string

text \<open>\<^verbatim>\<open>str(oid)\<close>: the hexadecimal rendering the identifier carries.\<close>

fun str_oid :: "objectid \<Rightarrow> string" where
  "str_oid (OID h) = h"

datatype bval = Null | Str string | Oid objectid

text \<open>\<^verbatim>\<open>str(v)\<close> of what is found under \<^verbatim>\<open>_id\<close>.\<close>

fun py_str :: "bval \<Rightarrow> string" where
  "py_str Null = ''None''"
| "py_str (Str s) = s"
| "py_str (Oid i) = str_oid i"

text \<open>
  A stored document always has an \<^verbatim>\<open>_id\<close>; the other fields are kept as the
  dictionary they are, in insertion order. A dictionary handed back to the caller is an
  association list.
\<close>

type_synonym dict = "(string \<times> bval) list"

datatype document = Document (doc_id: bval) (doc_fields: dict)

fun get_field :: "document \<Rightarrow> string \<Rightarrow> bval option" where
  "get_field (Document i fs) k = (if k = ''_id'' then Some i else map_of fs k)"

text \<open>The request bodies, \<^verbatim>\<open>AnnouncementCreate\<close> and \<^verbatim>\<open>AnnouncementUpdate\<close>.\<close>

record AnnouncementCreate =
  message :: string
  start_date :: "string option"
  expiration_date :: string
  created_by :: string

record AnnouncementUpdate =
  message :: "string option"
  start_date :: "string option"
  expiration_date :: "string option"

text \<open>
  What a handler raises: an \<^verbatim>\<open>HTTPException(status_code, detail)\<close>, or an exception
  that no handler catches (\<^verbatim>\<open>TypeError\<close> from comparing datetimes,
  \<^verbatim>\<open>DuplicateKeyError\<close> from an insert).
\<close>

datatype error = HTTPException nat string | TypeError | DuplicateKeyError

section \<open>The datetime library\<close>

text \<open>
  A \<^verbatim>\<open>datetime\<close> is its calendar fields and its \<^verbatim>\<open>tzinfo\<close>: \<open>None\<close> for a naive
  one, the UTC offset in microseconds for an aware one. \<^verbatim>\<open>datetime.utcnow()\<close>
  always returns a naive one, so a clock reading is a \<open>wallclock\<close>.
\<close>

datatype wallclock =
  WallClock (year: nat) (month: nat) (day: nat) (hour: nat) (minute: nat) (second: nat)
    (microsecond: nat)

datatype datetime = DateTime (wall: wallclock) (utcoffset: "int option")

definition utcnow :: "wallclock \<Rightarrow> datetime" where
  "utcnow w = DateTime w None"

definition fields :: "wallclock \<Rightarrow> nat list" where
  "fields w = [year w, month w, day w, hour w, minute w, second w, microsecond w]"

definition is_leap :: "nat \<Rightarrow> bool" where
  "is_leap y = (y mod 4 = 0 \<and> (y mod 100 \<noteq> 0 \<or> y mod 400 = 0))"

definition days_before_year :: "nat \<Rightarrow> nat" where
  "days_before_year y = (y - 1) * 365 + (y - 1) div 4 - (y - 1) div 100 + (y - 1) div 400"

definition days_in_month :: "nat \<Rightarrow> nat \<Rightarrow> nat" where
  "days_in_month y m =
     (if m = 2 then (if is_leap y then 29 else 28)
      else if m \<in> {4, 6, 9, 11} then 30 else 31)"

definition days_before_month :: "nat \<Rightarrow> nat \<Rightarrow> nat" where
  "days_before_month y m = sum_list (map (days_in_month y) [1..<m])"

definition ymd2ord :: "nat \<Rightarrow> nat \<Rightarrow> nat \<Rightarrow> nat" where
  "ymd2ord y m d = days_before_year y + days_before_month y m + d"

text \<open>The instant of an aware datetime, in microseconds, as its subtraction computes it.\<close>

definition utc_micros :: "wallclock \<Rightarrow> int \<Rightarrow> int" where
  "utc_micros w off =
     (int (ymd2ord (year w) (month w) (day w)) * 86400
        + int (hour w * 3600 + minute w * 60 + second w)) * 1000000
       + int (microsecond w) - off"

text \<open>
  Ordering comparisons: two naive values compare by their fields, two aware ones by
  their instants, and a naive with an aware one raises \<^verbatim>\<open>TypeError\<close>.
\<close>

definition dt_lt :: "datetime \<Rightarrow> datetime \<Rightarrow> error + bool" where
  "dt_lt a b =
     (case (utcoffset a, utcoffset b) of
        (None, None) \<Rightarrow> Inr (fields (wall a) < fields (wall b))
      | (Some x, Some y) \<Rightarrow> Inr (utc_micros (wall a) x < utc_micros (wall b) y)
      | _ \<Rightarrow> Inl TypeError)"

definition dt_ge :: "datetime \<Rightarrow> datetime \<Rightarrow> error + bool" where
  "dt_ge a b =
     (case (utcoffset a, utcoffset b) of
        (None, None) \<Rightarrow> Inr (fields (wall a) \<ge> fields (wall b))
      | (Some x, Some y) \<Rightarrow> Inr (utc_micros (wall a) x \<ge> utc_micros (wall b) y)
      | _ \<Rightarrow> Inl TypeError)"

text \<open>The field ranges of a \<^verbatim>\<open>datetime\<close>; every clock reading is within them.\<close>

definition valid_clock :: "wallclock \<Rightarrow> bool" where
  "valid_clock w =
     (1 \<le> year w \<and> year w \<le> 9999 \<and> 1 \<le> month w \<and> month w \<le> 12 \<and> 1 \<le> day w
      \<and> day w \<le> days_in_month (year w) (month w) \<and> hour w < 24 \<and> minute w < 60
      \<and> second w < 60 \<and> microsecond w < 1000000)"

text \<open>\<^verbatim>\<open>isoformat()\<close> of a naive datetime: the fraction is left out when it is zero.\<close>

definition digit :: "nat \<Rightarrow> char" where
  "digit n = ''0123456789'' ! (n mod 10)"

fun dec :: "nat \<Rightarrow> string" where
  "dec n = (if n < 10 then [digit n] else dec (n div 10) @ [digit n])"

declare dec.simps [simp del]

definition zpad :: "nat \<Rightarrow> nat \<Rightarrow> string" where
  "zpad w n = replicate (w - length (dec n)) CHR ''0'' @ dec n"

definition isoformat :: "wallclock \<Rightarrow> string" where
  "isoformat w =
     zpad 4 (year w) @ ''-'' @ zpad 2 (month w) @ ''-'' @ zpad 2 (day w) @ ''T''
       @ zpad 2 (hour w) @ '':'' @ zpad 2 (minute w) @ '':'' @ zpad 2 (second w)
       @ (if microsecond w = 0 then [] else ''.'' @ zpad 6 (microsecond w))"

text \<open>\<^verbatim>\<open>s.replace('Z', '+00:00')\<close>: every \<^verbatim>\<open>Z\<close> of the string is replaced.\<close>

definition replace_Z :: "string \<Rightarrow> string" where
  "replace_Z s = concat (map (\<lambda>c. if c = CHR ''Z'' then ''+00:00'' else [c]) s)"

text \<open>
  \<^verbatim>\<open>datetime.fromisoformat\<close> is a parameter of the handlers that call it: a function
  from strings to datetimes, \<open>None\<close> where the library raises \<^verbatim>\<open>ValueError\<close>. The
  handlers hand it the string with \<^verbatim>\<open>Z\<close> replaced.
\<close>

type_synonym parser = "string \<Rightarrow> datetime option"

definition parse_date :: "parser \<Rightarrow> string \<Rightarrow> datetime option" where
  "parse_date fromisoformat s = fromisoformat (replace_Z s)"

section \<open>The document store\<close>

text \<open>
  The store orders values of different kinds by kind (null, then strings, then object
  identifiers) and strings by their bytes. A missing field counts as null.
\<close>

fun bson_key :: "bval \<Rightarrow> nat \<times> string" where
  "bson_key Null = (0, [])"
| "bson_key (Str s) = (1, s)"
| "bson_key (Oid i) = (2, str_oid i)"

definition field_or_null :: "document \<Rightarrow> string \<Rightarrow> bval" where
  "field_or_null d k = (case get_field d k of None \<Rightarrow> Null | Some v \<Rightarrow> v)"

text \<open>
  The filters the module builds: a dictionary of clauses, all of which must hold. A clause
  constrains one field (by equality, \<^verbatim>\<open>$gte\<close> or \<^verbatim>\<open>$lte\<close>) or is an \<^verbatim>\<open>$or\<close> of such
  constraints. \<^verbatim>\<open>$gte\<close> and \<^verbatim>\<open>$lte\<close> only match values of the operand's kind.
\<close>

datatype cond = Eq bval | Gte bval | Lte bval

datatype clause = Field string cond | Or "(string \<times> cond) list"

type_synonym query = "clause list"

fun cond_holds :: "cond \<Rightarrow> bval \<Rightarrow> bool" where
  "cond_holds (Eq x) v = (v = x)"
| "cond_holds (Gte x) v = (fst (bson_key v) = fst (bson_key x) \<and> bson_key v \<ge> bson_key x)"
| "cond_holds (Lte x) v = (fst (bson_key v) = fst (bson_key x) \<and> bson_key v \<le> bson_key x)"

fun clause_holds :: "document \<Rightarrow> clause \<Rightarrow> bool" where
  "clause_holds d (Field k c) = cond_holds c (field_or_null d k)"
| "clause_holds d (Or alts) = list_ex (\<lambda>(k, c). cond_holds c (field_or_null d k)) alts"

definition matches :: "query \<Rightarrow> document \<Rightarrow> bool" where
  "matches q d = list_all (clause_holds d) q"

definition find_docs :: "query \<Rightarrow> document list \<Rightarrow> document list" where
  "find_docs q coll = filter (matches q) coll"

definition find_one :: "query \<Rightarrow> document list \<Rightarrow> document option" where
  "find_one q coll = List.find (matches q) coll"

text \<open>
  \<^verbatim>\<open>.sort(key, -1)\<close>: descending by the field; documents with equal keys stay in the
  order of the collection.
\<close>

definition sort_desc :: "string \<Rightarrow> document list \<Rightarrow> document list" where
  "sort_desc k coll = rev (sort_key (\<lambda>d. bson_key (field_or_null d k)) (rev coll))"

text \<open>
  \<^verbatim>\<open>insert_one\<close>: the driver gives the document a new identifier; the store refuses an
  identifier it already holds.
\<close>

definition insert_one :: "objectid \<Rightarrow> dict \<Rightarrow> document list \<Rightarrow> error + document list" where
  "insert_one new_id doc coll =
     (if Oid new_id \<in> set (map doc_id coll) then Inl DuplicateKeyError
      else Inr (coll @ [Document (Oid new_id) doc]))"

text \<open>\<^verbatim>\<open>{"$set": update_doc}\<close>: each listed field is overwritten or added.\<close>

definition apply_set :: "dict \<Rightarrow> document \<Rightarrow> document" where
  "apply_set upd d = Document (doc_id d) (fold (\<lambda>(k, v). AList.update k v) upd (doc_fields d))"

text \<open>
  \<^verbatim>\<open>find_one_and_update(q, {"$set": upd}, return_document=True)\<close>: the first match is
  updated and returned as it is afterwards; \<open>None\<close> when nothing matches.
\<close>

fun find_one_and_update ::
  "query \<Rightarrow> dict \<Rightarrow> document list \<Rightarrow> document option \<times> document list" where
  "find_one_and_update q upd [] = (None, [])"
| "find_one_and_update q upd (d # ds) =
     (if matches q d then (Some (apply_set upd d), apply_set upd d # ds)
      else (case find_one_and_update q upd ds of (r, ds') \<Rightarrow> (r, d # ds')))"

text \<open>\<^verbatim>\<open>delete_one(q)\<close>: the first match is removed; the result is \<^verbatim>\<open>deleted_count\<close>.\<close>

fun delete_one :: "query \<Rightarrow> document list \<Rightarrow> nat \<times> document list" where
  "delete_one q [] = (0, [])"
| "delete_one q (d # ds) =
     (if matches q d then (1, ds)
      else (case delete_one q ds of (n, ds') \<Rightarrow> (n, d # ds')))"

text \<open>
  The constructor \<^verbatim>\<open>ObjectId(s)\<close> is a parameter of the handlers that call it: \<open>None\<close>
  where it raises \<^verbatim>\<open>InvalidId\<close>. Both handlers call it inside
  \<^verbatim>\<open>try: ... except Exception\<close> together with one store operation; what that block can
  raise is an \<open>exn\<close>. Whether the store operation fails is an input of the model
  (\<open>store_fails\<close>); a failing operation leaves the collection as it was.
\<close>

type_synonym oid_ctor = "string \<Rightarrow> objectid option"

datatype exn = InvalidId | PyMongoError

section \<open>The handlers\<close>

text \<open>The loop \<^verbatim>\<open>announcement["_id"] = str(announcement["_id"])\<close> on one document.\<close>

definition stringify_id :: "document \<Rightarrow> dict" where
  "stringify_id d = (''_id'', Str (py_str (doc_id d))) # doc_fields d"

text \<open>Truthiness of an \<^verbatim>\<open>Optional[str]\<close>: neither \<^verbatim>\<open>None\<close> nor empty.\<close>

fun truthy :: "string option \<Rightarrow> bool" where
  "truthy None = False"
| "truthy (Some s) = (s \<noteq> [])"

fun opt_value :: "string option \<Rightarrow> bval" where
  "opt_value None = Null"
| "opt_value (Some s) = Str s"

text \<open>The authentication check: \<^verbatim>\<open>teachers_collection.find_one({"_id": username})\<close>.\<close>

definition teacher_exists :: "document list \<Rightarrow> string \<Rightarrow> bool" where
  "teacher_exists teachers username =
     (find_one [Field ''_id'' (Eq (Str username))] teachers \<noteq> None)"

definition unauthorized :: error where
  "unauthorized = HTTPException 401 ''Unauthorized''"

definition invalid_date_format :: error where
  "invalid_date_format = HTTPException 400 ''Invalid date format''"

subsection \<open>\<^verbatim>\<open>get_active_announcements\<close>\<close>

definition active_query :: "string \<Rightarrow> query" where
  "active_query current_time =
     [Field ''expiration_date'' (Gte (Str current_time)),
      Or [(''start_date'', Eq Null), (''start_date'', Lte (Str current_time))]]"

definition get_active_announcements :: "wallclock \<Rightarrow> document list \<Rightarrow> dict list" where
  "get_active_announcements now announcements =
     (let current_time = isoformat now
      in map stringify_id (find_docs (active_query current_time) announcements))"

subsection \<open>\<^verbatim>\<open>get_all_announcements\<close>\<close>

definition get_all_announcements ::
  "document list \<Rightarrow> document list \<Rightarrow> string \<Rightarrow> error + dict list" where
  "get_all_announcements teachers announcements username =
     (if \<not> teacher_exists teachers username then Inl unauthorized
      else Inr (map stringify_id (sort_desc ''created_at'' (find_docs [] announcements))))"

subsection \<open>\<^verbatim>\<open>create_announcement\<close>\<close>

text \<open>
  The \<^verbatim>\<open>try\<close> block of the handler. A \<^verbatim>\<open>ValueError\<close> of the parser becomes the
  invalid-format error; an \<^verbatim>\<open>HTTPException\<close> raised inside the block and a
  \<^verbatim>\<open>TypeError\<close> of a comparison are not caught by \<^verbatim>\<open>except ValueError\<close>.
\<close>

definition create_validate_dates ::
  "parser \<Rightarrow> wallclock \<Rightarrow> AnnouncementCreate \<Rightarrow> error + unit" where
  "create_validate_dates fromisoformat now announcement =
     (case parse_date fromisoformat (AnnouncementCreate.expiration_date announcement) of
        None \<Rightarrow> Inl invalid_date_format
      | Some expiration \<Rightarrow>
          (case dt_lt expiration (utcnow now) of
             Inl e \<Rightarrow> Inl e
           | Inr True \<Rightarrow> Inl (HTTPException 400 ''Expiration date must be in the future'')
           | Inr False \<Rightarrow>
               (case AnnouncementCreate.start_date announcement of
                  None \<Rightarrow> Inr ()
                | Some s \<Rightarrow>
                    if s = [] then Inr ()
                    else
                      (case parse_date fromisoformat s of
                         None \<Rightarrow> Inl invalid_date_format
                       | Some start \<Rightarrow>
                           (case dt_ge start expiration of
                              Inl e \<Rightarrow> Inl e
                            | Inr True \<Rightarrow>
                                Inl (HTTPException 400
                                  ''Start date must be before expiration date'')
                            | Inr False \<Rightarrow> Inr ())))))"

definition announcement_doc :: "AnnouncementCreate \<Rightarrow> wallclock \<Rightarrow> dict" where
  "announcement_doc announcement now =
     [(''message'', Str (AnnouncementCreate.message announcement)),
      (''start_date'', opt_value (AnnouncementCreate.start_date announcement)),
      (''expiration_date'', Str (AnnouncementCreate.expiration_date announcement)),
      (''created_by'', Str (created_by announcement)),
      (''created_at'', Str (isoformat now))]"

text \<open>
  The clock is read twice: \<open>now\<close> for the expiration check, \<open>now'\<close> for
  \<^verbatim>\<open>created_at\<close>. The result pairs what the handler returns or raises with the
  announcements collection afterwards.
\<close>

definition create_announcement ::
  "parser \<Rightarrow> wallclock \<Rightarrow> wallclock \<Rightarrow> objectid \<Rightarrow> document list \<Rightarrow> document list
     \<Rightarrow> AnnouncementCreate \<Rightarrow> (error + dict) \<times> document list" where
  "create_announcement fromisoformat now now' new_id teachers announcements announcement =
     (if \<not> teacher_exists teachers (created_by announcement) then
        (Inl unauthorized, announcements)
      else if AnnouncementCreate.expiration_date announcement = [] then
        (Inl (HTTPException 400 ''Expiration date is required''), announcements)
      else
        (case create_validate_dates fromisoformat now announcement of
           Inl e \<Rightarrow> (Inl e, announcements)
         | Inr _ \<Rightarrow>
             (let doc = announcement_doc announcement now'
              in case insert_one new_id doc announcements of
                   Inl e \<Rightarrow> (Inl e, announcements)
                 | Inr announcements' \<Rightarrow>
                     (Inr (doc @ [(''_id'', Str (str_oid new_id))]), announcements'))))"

subsection \<open>\<^verbatim>\<open>update_announcement\<close>\<close>

definition update_doc :: "AnnouncementUpdate \<Rightarrow> dict" where
  "update_doc announcement =
     (case message announcement of None \<Rightarrow> [] | Some m \<Rightarrow> [(''message'', Str m)])
     @ (case start_date announcement of None \<Rightarrow> [] | Some s \<Rightarrow> [(''start_date'', Str s)])
     @ (case expiration_date announcement of
          None \<Rightarrow> [] | Some e \<Rightarrow> [(''expiration_date'', Str e)])"

text \<open>The first \<^verbatim>\<open>if\<close> of the validation block: the new expiration date against the clock.\<close>

definition update_check_expiration ::
  "parser \<Rightarrow> wallclock \<Rightarrow> AnnouncementUpdate \<Rightarrow> error + unit" where
  "update_check_expiration fromisoformat now announcement =
     (case expiration_date announcement of
        None \<Rightarrow> Inr ()
      | Some e \<Rightarrow>
          if e = [] then Inr ()
          else
            (case parse_date fromisoformat e of
               None \<Rightarrow> Inl invalid_date_format
             | Some expiration \<Rightarrow>
                 (case dt_lt expiration (utcnow now) of
                    Inl x \<Rightarrow> Inl x
                  | Inr True \<Rightarrow>
                      Inl (HTTPException 400 ''Expiration date must be in the future'')
                  | Inr False \<Rightarrow> Inr ())))"

text \<open>The second \<^verbatim>\<open>if\<close>: only when both dates are supplied and non-empty.\<close>

definition update_check_order :: "parser \<Rightarrow> AnnouncementUpdate \<Rightarrow> error + unit" where
  "update_check_order fromisoformat announcement =
     (case (start_date announcement, expiration_date announcement) of
        (Some s, Some e) \<Rightarrow>
          if s = [] \<or> e = [] then Inr ()
          else
            (case parse_date fromisoformat s of
               None \<Rightarrow> Inl invalid_date_format
             | Some start \<Rightarrow>
                 (case parse_date fromisoformat e of
                    None \<Rightarrow> Inl invalid_date_format
                  | Some expiration \<Rightarrow>
                      (case dt_ge start expiration of
                         Inl x \<Rightarrow> Inl x
                       | Inr True \<Rightarrow>
                           Inl (HTTPException 400
                             ''Start date must be before expiration date'')
                       | Inr False \<Rightarrow> Inr ())))
      | _ \<Rightarrow> Inr ())"

definition update_validate_dates ::
  "parser \<Rightarrow> wallclock \<Rightarrow> AnnouncementUpdate \<Rightarrow> error + unit" where
  "update_validate_dates fromisoformat now announcement =
     (case update_check_expiration fromisoformat now announcement of
        Inl e \<Rightarrow> Inl e
      | Inr _ \<Rightarrow> update_check_order fromisoformat announcement)"

text \<open>The block \<^verbatim>\<open>try: find_one_and_update(...) except Exception\<close>.\<close>

definition update_try ::
  "oid_ctor \<Rightarrow> bool \<Rightarrow> string \<Rightarrow> dict \<Rightarrow> document list
     \<Rightarrow> exn + (document option \<times> document list)" where
  "update_try ObjectId store_fails announcement_id upd announcements =
     (case ObjectId announcement_id of
        None \<Rightarrow> Inl InvalidId
      | Some i \<Rightarrow>
          if store_fails then Inl PyMongoError
          else Inr (find_one_and_update [Field ''_id'' (Eq (Oid i))] upd announcements))"

definition update_announcement ::
  "parser \<Rightarrow> oid_ctor \<Rightarrow> bool \<Rightarrow> wallclock \<Rightarrow> document list \<Rightarrow> document list
     \<Rightarrow> string \<Rightarrow> AnnouncementUpdate \<Rightarrow> string \<Rightarrow> (error + dict) \<times> document list" where
  "update_announcement fromisoformat ObjectId store_fails now teachers announcements
       announcement_id announcement username =
     (if \<not> teacher_exists teachers username then (Inl unauthorized, announcements)
      else if update_doc announcement = [] then
        (Inl (HTTPException 400 ''No fields to update''), announcements)
      else
        (case update_validate_dates fromisoformat now announcement of
           Inl e \<Rightarrow> (Inl e, announcements)
         | Inr _ \<Rightarrow>
             (case update_try ObjectId store_fails announcement_id (update_doc announcement)
                     announcements of
                Inl _ \<Rightarrow> (Inl (HTTPException 400 ''Invalid announcement ID''), announcements)
              | Inr (None, announcements') \<Rightarrow>
                  (Inl (HTTPException 404 ''Announcement not found''), announcements')
              | Inr (Some result, announcements') \<Rightarrow>
                  (Inr (stringify_id result), announcements'))))"

subsection \<open>\<^verbatim>\<open>delete_announcement\<close>\<close>

definition delete_try ::
  "oid_ctor \<Rightarrow> bool \<Rightarrow> string \<Rightarrow> document list \<Rightarrow> exn + (nat \<times> document list)" where
  "delete_try ObjectId store_fails announcement_id announcements =
     (case ObjectId announcement_id of
        None \<Rightarrow> Inl InvalidId
      | Some i \<Rightarrow>
          if store_fails then Inl PyMongoError
          else Inr (delete_one [Field ''_id'' (Eq (Oid i))] announcements))"

definition delete_announcement ::
  "oid_ctor \<Rightarrow> bool \<Rightarrow> document list \<Rightarrow> document list \<Rightarrow> string \<Rightarrow> string
     \<Rightarrow> (error + dict) \<times> document list" where
  "delete_announcement ObjectId store_fails teachers announcements announcement_id username =
     (if \<not> teacher_exists teachers username then (Inl unauthorized, announcements)
      else
        (case delete_try ObjectId store_fails announcement_id announcements of
           Inl _ \<Rightarrow> (Inl (HTTPException 400 ''Invalid announcement ID''), announcements)
         | Inr (deleted_count, announcements') \<Rightarrow>
             if deleted_count = 0 then
               (Inl (HTTPException 404 ''Announcement not found''), announcements')
             else
               (Inr [(''message'', Str ''Announcement deleted successfully'')],
                announcements')))"

section \<open>Concrete library instances for the examples\<close>

text \<open>
  A fragment of \<^verbatim>\<open>datetime.fromisoformat\<close>: the strings \<^verbatim>\<open>YYYY-MM-DD\<close>,
  \<^verbatim>\<open>YYYY-MM-DD?HH:MM:SS\<close> (any one character as the separator) and the latter followed
  by \<^verbatim>\<open>+HH:MM\<close> or \<^verbatim>\<open>-HH:MM\<close>, with every field in its range. On a string it accepts
  it returns what the library returns; the examples below only parse such strings, or
  strings the library rejects as well.
\<close>

definition is_digit :: "char \<Rightarrow> bool" where
  "is_digit c = (CHR ''0'' \<le> c \<and> c \<le> CHR ''9'')"

definition number :: "string \<Rightarrow> nat option" where
  "number s =
     (if s \<noteq> [] \<and> list_all is_digit s
      then Some (foldl (\<lambda>a c. 10 * a + (of_char c - 48)) 0 s) else None)"

definition parse_ymd :: "string \<Rightarrow> (nat \<times> nat \<times> nat) option" where
  "parse_ymd s =
     (case (number (take 4 s), number (take 2 (drop 5 s)), number (take 2 (drop 8 s))) of
        (Some y, Some m, Some d) \<Rightarrow>
          if length s = 10 \<and> s ! 4 = CHR ''-'' \<and> s ! 7 = CHR ''-'' \<and> 1 \<le> y
             \<and> 1 \<le> m \<and> m \<le> 12 \<and> 1 \<le> d \<and> d \<le> days_in_month y m
          then Some (y, m, d) else None
      | _ \<Rightarrow> None)"

definition parse_hms :: "string \<Rightarrow> (nat \<times> nat \<times> nat) option" where
  "parse_hms s =
     (case (number (take 2 s), number (take 2 (drop 3 s)), number (take 2 (drop 6 s))) of
        (Some h, Some m, Some x) \<Rightarrow>
          if length s = 8 \<and> s ! 2 = CHR '':'' \<and> s ! 5 = CHR '':'' \<and> h < 24 \<and> m < 60
             \<and> x < 60
          then Some (h, m, x) else None
      | _ \<Rightarrow> None)"

definition parse_tz :: "string \<Rightarrow> int option" where
  "parse_tz s =
     (case (number (take 2 (drop 1 s)), number (take 2 (drop 4 s))) of
        (Some h, Some m) \<Rightarrow>
          if length s = 6 \<and> s ! 0 \<in> {CHR ''+'', CHR ''-''} \<and> s ! 3 = CHR '':'' \<and> h < 24
             \<and> m < 60
          then Some ((if s ! 0 = CHR ''-'' then - 1 else 1)
                       * (int (h * 3600 + m * 60) * 1000000))
          else None
      | _ \<Rightarrow> None)"

definition iso_fragment :: parser where
  "iso_fragment s =
     (case parse_ymd (take 10 s) of
        None \<Rightarrow> None
      | Some (y, m, d) \<Rightarrow>
          if length s = 10 then Some (DateTime (WallClock y m d 0 0 0 0) None)
          else
            (case parse_hms (take 8 (drop 11 s)) of
               None \<Rightarrow> None
             | Some (h, mi, x) \<Rightarrow>
                 if length s = 19 then Some (DateTime (WallClock y m d h mi x 0) None)
                 else if length s = 25 then
                   (case parse_tz (drop 19 s) of
                      None \<Rightarrow> None
                    | Some off \<Rightarrow> Some (DateTime (WallClock y m d h mi x 0) (Some off)))
                 else None))"

text \<open>
  A fragment of \<^verbatim>\<open>ObjectId(s)\<close>: 24 lower-case hexadecimal digits, which the constructor
  accepts and \<^verbatim>\<open>str\<close> gives back unchanged.
\<close>

definition is_hex :: "char \<Rightarrow> bool" where
  "is_hex c = (is_digit c \<or> (CHR ''a'' \<le> c \<and> c \<le> CHR ''f''))"

definition hex_oid :: oid_ctor where
  "hex_oid s = (if length s = 24 \<and> list_all is_hex s then Some (OID s) else None)"

section \<open>Predicates of the specification\<close>

text \<open>
  An announcement is active at the clock reading \<open>now\<close>, in the specification's words:
  its \<^verbatim>\<open>expiration_date\<close> is a time at or after \<open>now\<close>, and its \<^verbatim>\<open>start_date\<close> is
  absent or a time at or before \<open>now\<close>. The dates are timestamps: the stored strings
  are read as the handlers read them, and compared as datetimes with the current time.
\<close>

definition spec_active :: "parser \<Rightarrow> wallclock \<Rightarrow> document \<Rightarrow> bool" where
  "spec_active fromisoformat now d =
     ((case get_field d ''expiration_date'' of
         Some (Str e) \<Rightarrow>
           (case parse_date fromisoformat e of
              Some expiration \<Rightarrow> dt_ge expiration (utcnow now) = Inr True
            | None \<Rightarrow> False)
       | _ \<Rightarrow> False)
      \<and> (case get_field d ''start_date'' of
            None \<Rightarrow> True
          | Some Null \<Rightarrow> True
          | Some (Str s) \<Rightarrow>
              (case parse_date fromisoformat s of
                 Some start \<Rightarrow> dt_ge (utcnow now) start = Inr True
               | None \<Rightarrow> False)
          | _ \<Rightarrow> False))"

text \<open>Reading a key of a returned dictionary, \<^verbatim>\<open>None\<close> when it is missing.\<close>

definition dict_get :: "dict \<Rightarrow> string \<Rightarrow> bval" where
  "dict_get r k = (case map_of r k of None \<Rightarrow> Null | Some v \<Rightarrow> v)"

text \<open>
  The window invariant of the data model: a document whose \<^verbatim>\<open>start_date\<close> is a string
  has both dates parse, and the start strictly before the expiration.
\<close>

definition window_ok :: "parser \<Rightarrow> document \<Rightarrow> bool" where
  "window_ok fromisoformat d =
     (case get_field d ''start_date'' of
        Some (Str s) \<Rightarrow>
          (case get_field d ''expiration_date'' of
             Some (Str e) \<Rightarrow>
               (case (parse_date fromisoformat s, parse_date fromisoformat e) of
                  (Some start, Some expiration) \<Rightarrow> dt_lt start expiration = Inr True
                | _ \<Rightarrow> False)
           | _ \<Rightarrow> False)
      | _ \<Rightarrow> True)"

section \<open>Example data\<close>

definition teachers0 :: "document list" where
  "teachers0 = [Document (Str ''teacher1'') [(''display_name'', Str ''Ms. Rodriguez'')]]"

definition exam_id :: objectid where
  "exam_id = OID ''65a1b2c3d4e5f60718293a4b''"

definition trip_id :: objectid where
  "trip_id = OID ''65a1b2c3d4e5f60718293a4c''"

definition exam_doc :: document where
  "exam_doc = Document (Oid exam_id)
     [(''message'', Str ''Exam tomorrow''),
      (''start_date'', Null),
      (''expiration_date'', Str ''2030-01-02T10:00:00''),
      (''created_by'', Str ''teacher1''),
      (''created_at'', Str ''2030-01-01T10:00:00'')]"

definition trip_doc :: document where
  "trip_doc = Document (Oid trip_id)
     [(''message'', Str ''Field trip''),
      (''start_date'', Str ''2030-03-01T00:00:00''),
      (''expiration_date'', Str ''2030-06-01T00:00:00''),
      (''created_by'', Str ''teacher1''),
      (''created_at'', Str ''2030-01-05T09:30:00'')]"

definition store0 :: "document list" where
  "store0 = [exam_doc, trip_doc]"

text \<open>The clock readings at which the two announcements of \<open>store0\<close> were created.\<close>

definition store0_clock :: "dict \<Rightarrow> wallclock" where
  "store0_clock r =
     (if dict_get r ''message'' = Str ''Exam tomorrow'' then WallClock 2030 1 1 10 0 0 0
      else WallClock 2030 1 5 9 30 0 0)"

text \<open>The trip announcement after its start was moved past its expiration.\<close>

definition late_trip_doc :: document where
  "late_trip_doc = Document (Oid trip_id)
     [(''message'', Str ''Field trip''),
      (''start_date'', Str ''2031-01-01T00:00:00''),
      (''expiration_date'', Str ''2030-06-01T00:00:00''),
      (''created_by'', Str ''teacher1''),
      (''created_at'', Str ''2030-01-05T09:30:00'')]"

text \<open>The trip announcement after its expiration was moved before its start.\<close>

definition short_trip_doc :: document where
  "short_trip_doc = Document (Oid trip_id)
     [(''message'', Str ''Field trip''),
      (''start_date'', Str ''2030-03-01T00:00:00''),
      (''expiration_date'', Str ''2030-02-01T00:00:00''),
      (''created_by'', Str ''teacher1''),
      (''created_at'', Str ''2030-01-05T09:30:00'')]"

text \<open>The exam announcement with a new message.\<close>

definition moved_exam_doc :: document where
  "moved_exam_doc = Document (Oid exam_id)
     [(''message'', Str ''Exam moved''),
      (''start_date'', Null),
      (''expiration_date'', Str ''2030-01-02T10:00:00''),
      (''created_by'', Str ''teacher1''),
      (''created_at'', Str ''2030-01-01T10:00:00'')]"

text \<open>The exam announcement with a start date that is no date.\<close>

definition odd_exam_doc :: document where
  "odd_exam_doc = Document (Oid exam_id)
     [(''message'', Str ''Exam tomorrow''),
      (''start_date'', Str ''next Monday''),
      (''expiration_date'', Str ''2030-01-02T10:00:00''),
      (''created_by'', Str ''teacher1''),
      (''created_at'', Str ''2030-01-01T10:00:00'')]"

text \<open>An announcement created with an empty start date.\<close>

definition assembly_id :: objectid where
  "assembly_id = OID ''65a1b2c3d4e5f60718293a4d''"

definition assembly_doc :: document where
  "assembly_doc = Document (Oid assembly_id)
     [(''message'', Str ''Assembly''),
      (''start_date'', Str []),
      (''expiration_date'', Str ''2030-02-01T00:00:00''),
      (''created_by'', Str ''teacher1''),
      (''created_at'', Str ''2030-01-10T08:00:00.000250'')]"

text \<open>An announcement whose expiration date is written with a space as the separator.\<close>

definition notice_doc :: document where
  "notice_doc = Document (Oid assembly_id)
     [(''message'', Str ''Exam tomorrow''),
      (''start_date'', Null),
      (''expiration_date'', Str ''2030-01-01 23:00:00''),
      (''created_by'', Str ''teacher1''),
      (''created_at'', Str ''2029-12-31T10:00:00.000250'')]"

text \<open>An announcement whose expiration date is written with an underscore as the separator.\<close>

definition menu_id :: objectid where
  "menu_id = OID ''65a1b2c3d4e5f60718293a4e''"

definition stale_doc :: document where
  "stale_doc = Document (Oid menu_id)
     [(''message'', Str ''Lunch menu''),
      (''start_date'', Null),
      (''expiration_date'', Str ''2030-01-01_11:00:00''),
      (''created_by'', Str ''teacher1''),
      (''created_at'', Str ''2030-01-01T10:00:00.000250'')]"

section \<open>Facts about the store operations\<close>

lemma matches_id: "matches [Field ''_id'' (Eq v)] d \<longleftrightarrow> doc_id d = v"
  by (cases d) (simp add: matches_def field_or_null_def)

lemma no_match_id:
  "(\<forall>x\<in>set ds. \<not> matches [Field ''_id'' (Eq v)] x) \<longleftrightarrow> v \<notin> doc_id ` set ds"
  by (auto simp: matches_id)

lemma teacher_exists_iff: "teacher_exists teachers u \<longleftrightarrow> Str u \<in> doc_id ` set teachers"
  by (force simp: teacher_exists_def find_one_def find_None_iff matches_id)

lemma matches_active_query:
  "matches (active_query t) d \<longleftrightarrow>
     (case get_field d ''expiration_date'' of Some (Str e) \<Rightarrow> e \<ge> t | _ \<Rightarrow> False)
     \<and> (case get_field d ''start_date'' of
           None \<Rightarrow> True | Some Null \<Rightarrow> True | Some (Str s) \<Rightarrow> s \<le> t | _ \<Rightarrow> False)"
  by (cases d) (auto simp: matches_def active_query_def field_or_null_def
      split: option.splits bval.splits)

lemma find_docs_all: "find_docs [] coll = coll"
  by (simp add: find_docs_def matches_def)

lemma dict_get_stringify:
  "k \<noteq> ''_id'' \<Longrightarrow> dict_get (stringify_id d) k = field_or_null d k"
  by (cases d) (simp add: dict_get_def stringify_id_def field_or_null_def)

lemma sort_desc_sorted:
  "sorted_wrt (\<lambda>a b. bson_key (field_or_null a k) \<ge> bson_key (field_or_null b k))
     (sort_desc k coll)"
proof -
  let ?f = "\<lambda>d. bson_key (field_or_null d k)"
  have "sorted (map ?f (sort_key ?f (rev coll)))" by (rule sorted_sort_key)
  then have "sorted_wrt (\<lambda>a b. ?f a \<le> ?f b) (sort_key ?f (rev coll))"
    by (simp add: sorted_map)
  then show ?thesis
    by (simp add: sort_desc_def sorted_wrt_rev)
qed

lemma sort_desc_mset: "mset (sort_desc k coll) = mset coll"
  by (simp add: sort_desc_def)

lemma find_one_and_update_Some:
  "find_one_and_update q upd ds = (Some r, ds') \<Longrightarrow>
     \<exists>pre d post. ds = pre @ d # post \<and> (\<forall>x\<in>set pre. \<not> matches q x) \<and> matches q d
        \<and> r = apply_set upd d \<and> ds' = pre @ r # post"
proof (induction ds arbitrary: ds')
  case Nil
  then show ?case by simp
next
  case (Cons a ds)
  show ?case
  proof (cases "matches q a")
    case True
    with Cons.prems have "r = apply_set upd a" "ds' = r # ds" by auto
    with True show ?thesis by (intro exI[of _ "[]"] exI[of _ a] exI[of _ ds]) simp
  next
    case False
    with Cons.prems obtain ds'' where
      rec: "find_one_and_update q upd ds = (Some r, ds'')" and ds': "ds' = a # ds''"
      by (auto split: prod.splits)
    from Cons.IH[OF rec] obtain pre d post where
      "ds = pre @ d # post" "\<forall>x\<in>set pre. \<not> matches q x" "matches q d"
      "r = apply_set upd d" "ds'' = pre @ r # post"
      by blast
    with False ds' show ?thesis
      by (intro exI[of _ "a # pre"] exI[of _ d] exI[of _ post]) simp
  qed
qed

lemma find_one_and_update_None:
  "find_one_and_update q upd ds = (None, ds') \<Longrightarrow> ds' = ds \<and> (\<forall>x\<in>set ds. \<not> matches q x)"
  by (induction ds arbitrary: ds') (auto split: if_splits prod.splits)

lemma find_one_and_update_hit:
  "d \<in> set ds \<Longrightarrow> matches q d \<Longrightarrow> \<exists>r ds'. find_one_and_update q upd ds = (Some r, ds')"
  by (induction ds) (auto split: prod.splits)

lemma delete_one_miss: "\<forall>x\<in>set ds. \<not> matches q x \<Longrightarrow> delete_one q ds = (0, ds)"
  by (induction ds) auto

lemma delete_one_hit:
  "d \<in> set ds \<Longrightarrow> matches q d \<Longrightarrow>
     \<exists>pre x post. ds = pre @ x # post \<and> (\<forall>y\<in>set pre. \<not> matches q y) \<and> matches q x
        \<and> delete_one q ds = (1, pre @ post)"
proof (induction ds)
  case Nil
  then show ?case by simp
next
  case (Cons a ds)
  show ?case
  proof (cases "matches q a")
    case True
    then show ?thesis by (intro exI[of _ "[]"] exI[of _ a] exI[of _ ds]) simp
  next
    case False
    with Cons.prems have "d \<in> set ds" by auto
    from Cons.IH[OF this Cons.prems(2)] obtain pre x post where
      "ds = pre @ x # post" "\<forall>y\<in>set pre. \<not> matches q y" "matches q x"
      "delete_one q ds = (1, pre @ post)"
      by blast
    with False show ?thesis
      by (intro exI[of _ "a # pre"] exI[of _ x] exI[of _ post]) simp
  qed
qed

lemma find_one_and_update_ids:
  "find_one_and_update q upd ds = (r, ds') \<Longrightarrow> map doc_id ds' = map doc_id ds"
  by (induction ds arbitrary: r ds') (auto simp: apply_set_def split: if_splits prod.splits)

lemma delete_one_subset: "delete_one q ds = (n, ds') \<Longrightarrow> set ds' \<subseteq> set ds"
  by (induction ds arbitrary: n ds') (auto split: if_splits prod.splits)

lemma delete_one_ids:
  "delete_one q ds = (n, ds') \<Longrightarrow> distinct (map doc_id ds) \<Longrightarrow> distinct (map doc_id ds')"
proof (induction ds arbitrary: n ds')
  case Nil
  then show ?case by simp
next
  case (Cons a ds)
  show ?case
  proof (cases "matches q a")
    case True
    with Cons.prems show ?thesis by simp
  next
    case False
    with Cons.prems obtain m ds'' where
      rec: "delete_one q ds = (m, ds'')" and ds': "ds' = a # ds''"
      by (auto split: prod.splits)
    from Cons.IH[OF rec] Cons.prems(2) have "distinct (map doc_id ds'')" by simp
    moreover from delete_one_subset[OF rec] Cons.prems(2) have "doc_id a \<notin> doc_id ` set ds''"
      by auto
    ultimately show ?thesis using ds' by simp
  qed
qed

section \<open>Facts about \<^verbatim>\<open>isoformat\<close>\<close>

text \<open>
  The ISO rendering of clock readings is strictly monotone: the byte-wise order of the
  strings \<^verbatim>\<open>created_at\<close> holds is the order of the readings in time.
\<close>

lemma less_append_same: "(xs @ us < xs @ vs) = (us < (vs :: 'a :: linorder list))"
  by (induction xs) simp_all

lemma less_append_same_length:
  "length xs = length ys \<Longrightarrow> xs < ys \<Longrightarrow> xs @ us < ys @ (vs :: 'a :: linorder list)"
  by (induction xs ys rule: list_induct2) auto

lemma of_char_digit: "n < 10 \<Longrightarrow> of_char (digit n) = 48 + n"
proof -
  assume "n < 10"
  then have "n \<in> {0, 1, 2, 3, 4, 5, 6, 7, 8, 9}" by auto
  then show ?thesis by (auto simp: digit_def)
qed

lemma digit_less: "a mod 10 < b mod 10 \<Longrightarrow> digit a < digit b"
proof -
  assume l: "a mod 10 < b mod 10"
  have "digit a = digit (a mod 10)" "digit b = digit (b mod 10)"
    by (simp_all add: digit_def)
  then have "(of_char (digit a) :: nat) = 48 + a mod 10"
    "(of_char (digit b) :: nat) = 48 + b mod 10"
    by (simp_all add: of_char_digit)
  with l show ?thesis
    by (simp add: less_char_def)
qed

lemma dec_small: "n < 10 \<Longrightarrow> dec n = [digit n]"
  by (simp add: dec.simps)

lemma dec_large: "\<not> n < 10 \<Longrightarrow> dec n = dec (n div 10) @ [digit n]"
  by (subst dec.simps) simp

lemma length_dec: "0 < k \<Longrightarrow> n < 10 ^ k \<Longrightarrow> length (dec n) \<le> k"
proof (induction k arbitrary: n)
  case 0
  then show ?case by simp
next
  case (Suc k)
  show ?case
  proof (cases "n < 10")
    case True
    then show ?thesis by (simp add: dec_small)
  next
    case False
    with Suc.prems have k: "0 < k" by (cases k) auto
    from Suc.prems have "n div 10 < 10 ^ k" by (simp add: less_mult_imp_div_less mult.commute)
    from Suc.IH[OF k this] False show ?thesis by (simp add: dec_large)
  qed
qed

lemma length_zpad: "0 < k \<Longrightarrow> n < 10 ^ k \<Longrightarrow> length (zpad k n) = k"
  using length_dec[of k n] by (simp add: zpad_def)

lemma zpad_one: "n < 10 \<Longrightarrow> zpad (Suc 0) n = [digit n]"
  by (simp add: zpad_def dec_small)

lemma zpad_Suc:
  assumes "0 < k" "n < 10 ^ Suc k"
  shows "zpad (Suc k) n = zpad k (n div 10) @ [digit n]"
proof (cases "n < 10")
  case True
  have "replicate (k - 1) CHR ''0'' @ [CHR ''0''] = replicate k CHR ''0''"
    using assms(1) by (cases k) (simp_all add: replicate_append_same)
  with True show ?thesis
    by (simp add: zpad_def dec_small digit_def)
next
  case False
  from assms have "n div 10 < 10 ^ k" by (simp add: less_mult_imp_div_less mult.commute)
  from length_dec[OF assms(1) this] False show ?thesis
    by (simp add: zpad_def dec_large Suc_diff_le)
qed

lemma div10_lt: "(n::nat) < 10 ^ Suc k \<Longrightarrow> n div 10 < 10 ^ k"
  by (simp add: less_mult_imp_div_less mult.commute)

lemma split10:
  assumes ab: "(a::nat) < b"
  shows "a div 10 < b div 10 \<or> (a div 10 = b div 10 \<and> a mod 10 < b mod 10)"
proof (cases "a div 10 = b div 10")
  case False
  from ab have "a div 10 \<le> b div 10" by (intro div_le_mono less_imp_le)
  with False show ?thesis by (simp only: le_neq_implies_less simp_thms)
next
  case True
  define q where "q = b div 10"
  define r where "r = a mod 10"
  define s where "s = b mod 10"
  have "10 * (a div 10) + a mod 10 = a" by (rule mult_div_mod_eq)
  then have ea: "a = 10 * q + r" by (simp only: True q_def r_def)
  have "10 * (b div 10) + b mod 10 = b" by (rule mult_div_mod_eq)
  then have eb: "b = 10 * q + s" by (simp only: q_def s_def)
  from ab have "10 * q + r < 10 * q + s" by (simp only: ea[symmetric] eb[symmetric])
  then have "r < s" by (simp only: nat_add_left_cancel_less)
  with True show ?thesis by (simp only: r_def s_def simp_thms)
qed

lemma zpad_less_base: "a < b \<Longrightarrow> b < 10 \<Longrightarrow> zpad (Suc 0) a < zpad (Suc 0) b"
proof -
  assume ab: "a < b" and b: "b < 10"
  then have a: "a < 10" by simp
  from ab a b have "a mod 10 < b mod 10" by simp
  then have "digit a < digit b" by (rule digit_less)
  with a b show ?thesis by (simp add: zpad_one)
qed

lemma zpad_less_step:
  assumes k: "0 < k" and ab: "a < b" and b: "b < 10 ^ Suc k"
    and IH: "\<And>x y. x < y \<Longrightarrow> y < 10 ^ k \<Longrightarrow> zpad k x < zpad k y"
  shows "zpad (Suc k) a < zpad (Suc k) b"
proof -
  from ab b have a: "a < 10 ^ Suc k" by (rule less_trans)
  have za: "zpad (Suc k) a = zpad k (a div 10) @ [digit a]"
    by (rule zpad_Suc[OF k a])
  have zb: "zpad (Suc k) b = zpad k (b div 10) @ [digit b]"
    by (rule zpad_Suc[OF k b])
  have ak: "a div 10 < 10 ^ k" by (rule div10_lt[OF a])
  have bk: "b div 10 < 10 ^ k" by (rule div10_lt[OF b])
  from split10[OF ab] show ?thesis
  proof
    assume 1: "a div 10 < b div 10"
    have l: "zpad k (a div 10) < zpad k (b div 10)" by (rule IH[OF 1 bk])
    have e: "length (zpad k (a div 10)) = length (zpad k (b div 10))"
      by (simp only: length_zpad[OF k ak] length_zpad[OF k bk])
    show ?thesis
      unfolding za zb by (rule less_append_same_length[OF e l])
  next
    assume 2: "a div 10 = b div 10 \<and> a mod 10 < b mod 10"
    then have d: "digit a < digit b" by (simp only: digit_less)
    have "[digit a] < [digit b]" using d by simp
    then have "zpad k (b div 10) @ [digit a] < zpad k (b div 10) @ [digit b]"
      by (simp only: less_append_same)
    with 2 show ?thesis
      unfolding za zb by simp
  qed
qed

lemma zpad_less: "0 < k \<Longrightarrow> a < b \<Longrightarrow> b < 10 ^ k \<Longrightarrow> zpad k a < zpad k b"
proof (induction k arbitrary: a b)
  case 0
  then show ?case by simp
next
  case (Suc k)
  show ?case
  proof (cases "k = 0")
    case True
    from Suc.prems(3) True have "b < 10" by simp
    from zpad_less_base[OF Suc.prems(2) this] True show ?thesis by simp
  next
    case False
    then have k: "0 < k" by simp
    show ?thesis
      by (rule zpad_less_step[OF k Suc.prems(2) Suc.prems(3)]) (rule Suc.IH[OF k])
  qed
qed

lemma zpad_block:
  assumes k: "0 < k" and a: "a < 10 ^ k" and b: "b < 10 ^ k"
    and lt: "a < b \<or> (a = b \<and> x < y)"
  shows "zpad k a @ x < zpad k b @ y"
  using lt
proof
  assume ab: "a < b"
  have e: "length (zpad k a) = length (zpad k b)"
    by (simp only: length_zpad[OF k a] length_zpad[OF k b])
  from zpad_less[OF k ab b] show ?thesis
    by (rule less_append_same_length[OF e])
next
  assume "a = b \<and> x < y"
  then show ?thesis by (simp only: less_append_same)
qed

lemma zpad_block_sep:
  assumes "0 < k" "a < 10 ^ k" "b < 10 ^ k" "a < b \<or> (a = b \<and> x < y)"
  shows "zpad k a @ c # x < zpad k b @ c # y"
proof (rule zpad_block[OF assms(1-3)])
  from assms(4) show "a < b \<or> (a = b \<and> c # x < c # y)" by simp
qed

lemma days_in_month_le: "days_in_month y m \<le> 31"
  by (simp add: days_in_month_def)

lemma fraction_less:
  assumes "u < v" "v < 1000000"
  shows "(if u = 0 then [] else ''.'' @ zpad 6 u) < (if v = 0 then [] else ''.'' @ zpad 6 v)"
proof (cases "u = 0")
  case True
  with assms show ?thesis by simp
next
  case False
  from assms have "v < 10 ^ 6" by simp
  from zpad_less[OF _ assms(1) this] have "zpad 6 u < zpad 6 v" by simp
  with False assms(1) show ?thesis by simp
qed

lemma isoformat_strict_mono:
  assumes va: "valid_clock a" and vb: "valid_clock b" and lt: "fields a < fields b"
  shows "isoformat a < isoformat b"
proof -
  obtain y1 m1 d1 h1 n1 s1 u1 where a: "a = WallClock y1 m1 d1 h1 n1 s1 u1" by (cases a)
  obtain y2 m2 d2 h2 n2 s2 u2 where b: "b = WallClock y2 m2 d2 h2 n2 s2 u2" by (cases b)
  let ?f1 = "if u1 = 0 then [] else ''.'' @ zpad 6 u1"
  let ?f2 = "if u2 = 0 then [] else ''.'' @ zpad 6 u2"
  from va a days_in_month_le[of y1 m1] have ba: "y1 < 10 ^ 4" "m1 < 10 ^ 2" "d1 < 10 ^ 2"
    "h1 < 10 ^ 2" "n1 < 10 ^ 2" "s1 < 10 ^ 2"
    by (simp_all add: valid_clock_def)
  from vb b days_in_month_le[of y2 m2] have bb: "y2 < 10 ^ 4" "m2 < 10 ^ 2" "d2 < 10 ^ 2"
    "h2 < 10 ^ 2" "n2 < 10 ^ 2" "s2 < 10 ^ 2" "u2 < 1000000"
    by (simp_all add: valid_clock_def)
  from lt a b have c: "y1 < y2 \<or> (y1 = y2 \<and> (m1 < m2 \<or> (m1 = m2 \<and> (d1 < d2 \<or> (d1 = d2 \<and>
      (h1 < h2 \<or> (h1 = h2 \<and> (n1 < n2 \<or> (n1 = n2 \<and> (s1 < s2 \<or> (s1 = s2 \<and> u1 < u2)))))))))))"
    by (simp add: fields_def)
  have p0: "u1 < u2 \<Longrightarrow> ?f1 < ?f2"
    by (rule fraction_less[OF _ bb(7)])
  have p1: "s1 < s2 \<or> (s1 = s2 \<and> u1 < u2) \<Longrightarrow> zpad 2 s1 @ ?f1 < zpad 2 s2 @ ?f2"
    by (rule zpad_block[OF _ ba(6) bb(6)]) (use p0 in auto)
  have p2: "n1 < n2 \<or> (n1 = n2 \<and> (s1 < s2 \<or> (s1 = s2 \<and> u1 < u2)))
      \<Longrightarrow> zpad 2 n1 @ CHR '':'' # zpad 2 s1 @ ?f1 < zpad 2 n2 @ CHR '':'' # zpad 2 s2 @ ?f2"
    by (rule zpad_block_sep[OF _ ba(5) bb(5)]) (use p1 in auto)
  have p3: "h1 < h2 \<or> (h1 = h2 \<and> (n1 < n2 \<or> (n1 = n2 \<and> (s1 < s2 \<or> (s1 = s2 \<and> u1 < u2)))))
      \<Longrightarrow> zpad 2 h1 @ CHR '':'' # zpad 2 n1 @ CHR '':'' # zpad 2 s1 @ ?f1
        < zpad 2 h2 @ CHR '':'' # zpad 2 n2 @ CHR '':'' # zpad 2 s2 @ ?f2"
    by (rule zpad_block_sep[OF _ ba(4) bb(4)]) (use p2 in auto)
  have p4: "d1 < d2 \<or> (d1 = d2 \<and> (h1 < h2 \<or> (h1 = h2 \<and> (n1 < n2 \<or> (n1 = n2 \<and>
        (s1 < s2 \<or> (s1 = s2 \<and> u1 < u2)))))))
      \<Longrightarrow> zpad 2 d1 @ CHR ''T'' # zpad 2 h1 @ CHR '':'' # zpad 2 n1 @ CHR '':'' # zpad 2 s1 @ ?f1
        < zpad 2 d2 @ CHR ''T'' # zpad 2 h2 @ CHR '':'' # zpad 2 n2 @ CHR '':'' # zpad 2 s2 @ ?f2"
    by (rule zpad_block_sep[OF _ ba(3) bb(3)]) (use p3 in auto)
  have p5: "m1 < m2 \<or> (m1 = m2 \<and> (d1 < d2 \<or> (d1 = d2 \<and> (h1 < h2 \<or> (h1 = h2 \<and>
        (n1 < n2 \<or> (n1 = n2 \<and> (s1 < s2 \<or> (s1 = s2 \<and> u1 < u2)))))))))
      \<Longrightarrow> zpad 2 m1 @ CHR ''-'' # zpad 2 d1 @ CHR ''T'' # zpad 2 h1 @ CHR '':'' # zpad 2 n1
          @ CHR '':'' # zpad 2 s1 @ ?f1
        < zpad 2 m2 @ CHR ''-'' # zpad 2 d2 @ CHR ''T'' # zpad 2 h2 @ CHR '':'' # zpad 2 n2
          @ CHR '':'' # zpad 2 s2 @ ?f2"
    by (rule zpad_block_sep[OF _ ba(2) bb(2)]) (use p4 in auto)
  have p6: "zpad 4 y1 @ CHR ''-'' # zpad 2 m1 @ CHR ''-'' # zpad 2 d1 @ CHR ''T'' # zpad 2 h1
          @ CHR '':'' # zpad 2 n1 @ CHR '':'' # zpad 2 s1 @ ?f1
        < zpad 4 y2 @ CHR ''-'' # zpad 2 m2 @ CHR ''-'' # zpad 2 d2 @ CHR ''T'' # zpad 2 h2
          @ CHR '':'' # zpad 2 n2 @ CHR '':'' # zpad 2 s2 @ ?f2"
    by (rule zpad_block_sep[OF _ ba(1) bb(1)]) (use c p5 in auto)
  then show ?thesis
    unfolding a b isoformat_def wallclock.sel append_Cons append_Nil .
qed

lemma isoformat_le_imp:
  assumes "valid_clock a" "valid_clock b" "isoformat a \<le> isoformat b"
  shows "fields a \<le> fields b"
proof (rule ccontr)
  assume "\<not> fields a \<le> fields b"
  then have "fields b < fields a" by simp
  from isoformat_strict_mono[OF assms(2) assms(1) this] assms(3) show False by simp
qed

section \<open>Listing the active announcements\<close>

lemma fields_inject: "fields a = fields b \<Longrightarrow> a = b"
  by (cases a; cases b) (simp add: fields_def)

lemma isoformat_le_iff:
  assumes "valid_clock a" "valid_clock b"
  shows "isoformat a \<le> isoformat b \<longleftrightarrow> fields a \<le> fields b"
proof
  assume "isoformat a \<le> isoformat b"
  then show "fields a \<le> fields b" by (rule isoformat_le_imp[OF assms])
next
  assume "fields a \<le> fields b"
  then consider "fields a < fields b" | "fields a = fields b" by (auto simp: le_less)
  then show "isoformat a \<le> isoformat b"
  proof cases
    case 1
    from isoformat_strict_mono[OF assms 1] show ?thesis by simp
  next
    case 2
    then have "a = b" by (rule fields_inject)
    then show ?thesis by simp
  qed
qed

text \<open>
  What holds of the listing: where the dates of a document are the ISO renderings of
  clock readings, and the parser reads such a rendering back, the query selects the
  document exactly when it is active in time. So on a collection of such documents
  \<^verbatim>\<open>get_active_announcements\<close> returns exactly the active announcements.
\<close>

lemma active_query_canonical:
  assumes now: "valid_clock now"
    and e: "valid_clock e" "get_field d ''expiration_date'' = Some (Str (isoformat e))"
      "parse_date fromisoformat (isoformat e) = Some (DateTime e None)"
    and s: "get_field d ''start_date'' = None \<or> get_field d ''start_date'' = Some Null
      \<or> (\<exists>s. valid_clock s \<and> get_field d ''start_date'' = Some (Str (isoformat s))
            \<and> parse_date fromisoformat (isoformat s) = Some (DateTime s None))"
  shows "matches (active_query (isoformat now)) d \<longleftrightarrow> spec_active fromisoformat now d"
proof -
  have x: "(isoformat now \<le> isoformat e) = (dt_ge (DateTime e None) (utcnow now) = Inr True)"
    by (simp add: isoformat_le_iff[OF now e(1)] dt_ge_def utcnow_def)
  from s show ?thesis
  proof (elim disjE exE conjE)
    assume "get_field d ''start_date'' = None"
    with e x show ?thesis by (simp add: matches_active_query spec_active_def)
  next
    assume "get_field d ''start_date'' = Some Null"
    with e x show ?thesis by (simp add: matches_active_query spec_active_def)
  next
    fix s
    assume 3: "valid_clock s" "get_field d ''start_date'' = Some (Str (isoformat s))"
      "parse_date fromisoformat (isoformat s) = Some (DateTime s None)"
    have "(isoformat s \<le> isoformat now) = (dt_ge (utcnow now) (DateTime s None) = Inr True)"
      by (simp add: isoformat_le_iff[OF 3(1) now] dt_ge_def utcnow_def)
    with 3 e x show ?thesis by (simp add: matches_active_query spec_active_def)
  qed
qed

lemma list_active_canonical:
  assumes "valid_clock now"
    and "\<forall>d\<in>set announcements.
      (\<exists>e. valid_clock e \<and> get_field d ''expiration_date'' = Some (Str (isoformat e))
         \<and> parse_date fromisoformat (isoformat e) = Some (DateTime e None))
      \<and> (get_field d ''start_date'' = None \<or> get_field d ''start_date'' = Some Null
         \<or> (\<exists>s. valid_clock s \<and> get_field d ''start_date'' = Some (Str (isoformat s))
               \<and> parse_date fromisoformat (isoformat s) = Some (DateTime s None)))"
  shows "get_active_announcements now announcements
       = map stringify_id (filter (spec_active fromisoformat now) announcements)"
proof -
  have "filter (matches (active_query (isoformat now))) announcements
      = filter (spec_active fromisoformat now) announcements"
  proof (rule filter_cong[OF refl])
    fix d
    assume "d \<in> set announcements"
    with assms(2) obtain e where
      "valid_clock e" "get_field d ''expiration_date'' = Some (Str (isoformat e))"
      "parse_date fromisoformat (isoformat e) = Some (DateTime e None)"
      and "get_field d ''start_date'' = None \<or> get_field d ''start_date'' = Some Null
         \<or> (\<exists>s. valid_clock s \<and> get_field d ''start_date'' = Some (Str (isoformat s))
               \<and> parse_date fromisoformat (isoformat s) = Some (DateTime s None))"
      by blast
    then show "matches (active_query (isoformat now)) d = spec_active fromisoformat now d"
      by (rule active_query_canonical[OF assms(1)])
  qed
  then show ?thesis
    by (simp add: get_active_announcements_def find_docs_def)
qed

text \<open>
  Claim C3, that \<^verbatim>\<open>get_active_announcements\<close> returns exactly the announcements whose
  expiration is at or after the current time and whose start is absent or at or before
  it, at one input. At 2030-01-01 10:00 a known teacher creates an announcement without
  start date that expires at \<^verbatim>\<open>2030-01-01_11:00:00\<close>, written with an underscore between
  date and time. The date parses and lies after the clock, so the announcement is
  stored. At 2030-01-01 12:00 it expired an hour ago and is not active, but the handler
  returns it: the store compares the stored string with \<^verbatim>\<open>2030-01-01T12:00:00\<close>, and an
  underscore sorts after \<^verbatim>\<open>T\<close>. An announcement that expires at
  \<^verbatim>\<open>2030-01-01 23:00:00\<close>, written with a space, is active then and is not returned.
\<close>

theorem list_active_returns_expired:
  "create_announcement iso_fragment (WallClock 2030 1 1 10 0 0 0)
        (WallClock 2030 1 1 10 0 0 250) menu_id teachers0 []
        \<lparr>AnnouncementCreate.message = ''Lunch menu'', start_date = None,
         expiration_date = ''2030-01-01_11:00:00'', created_by = ''teacher1''\<rparr>
       = (Inr (doc_fields stale_doc @ [(''_id'', Str ''65a1b2c3d4e5f60718293a4e'')]),
          [stale_doc])
   \<and> parse_date iso_fragment ''2030-01-01_11:00:00''
       = Some (DateTime (WallClock 2030 1 1 11 0 0 0) None)
   \<and> dt_lt (DateTime (WallClock 2030 1 1 11 0 0 0) None)
        (utcnow (WallClock 2030 1 1 12 0 0 0)) = Inr True
   \<and> \<not> spec_active iso_fragment (WallClock 2030 1 1 12 0 0 0) stale_doc
   \<and> spec_active iso_fragment (WallClock 2030 1 1 12 0 0 0) notice_doc
   \<and> isoformat (WallClock 2030 1 1 12 0 0 0) = ''2030-01-01T12:00:00''
   \<and> get_active_announcements (WallClock 2030 1 1 12 0 0 0) [stale_doc, notice_doc]
       = [stringify_id stale_doc]"
  by (intro conjI; code_simp)

section \<open>Unknown actors\<close>

text \<open>
  Claim C5. When the actor's user name (\<^verbatim>\<open>created_by\<close> for a creation) is the
  \<^verbatim>\<open>_id\<close> of no teacher, listing all announcements, creating, updating and deleting
  each raise \<^verbatim>\<open>HTTPException(401, "Unauthorized")\<close>, and the three handlers that can
  write leave the announcements collection as it was.
\<close>

theorem unknown_actor_unauthorized:
  assumes "Str username \<notin> doc_id ` set teachers"
  shows "get_all_announcements teachers announcements username
           = Inl (HTTPException 401 ''Unauthorized'')
       \<and> (created_by c = username \<longrightarrow>
            create_announcement fromisoformat now now' new_id teachers announcements c
              = (Inl (HTTPException 401 ''Unauthorized''), announcements))
       \<and> update_announcement fromisoformat ObjectId store_fails now teachers announcements
            announcement_id u username
           = (Inl (HTTPException 401 ''Unauthorized''), announcements)
       \<and> delete_announcement ObjectId store_fails teachers announcements announcement_id
            username
           = (Inl (HTTPException 401 ''Unauthorized''), announcements)"
  using assms
  by (simp add: teacher_exists_iff get_all_announcements_def create_announcement_def
      update_announcement_def delete_announcement_def unauthorized_def)

theorem unknown_actor_unauthorized_witness:
  "Str ''mallory'' \<notin> doc_id ` set teachers0
   \<and> get_all_announcements teachers0 store0 ''mallory''
       = Inl (HTTPException 401 ''Unauthorized'')
   \<and> create_announcement iso_fragment (WallClock 2030 1 1 12 0 0 0)
        (WallClock 2030 1 1 12 0 0 1) (OID ''65a1b2c3d4e5f60718293a4d'') teachers0 store0
        \<lparr>AnnouncementCreate.message = ''Free pizza'', start_date = None,
         expiration_date = ''2030-02-01T00:00:00'', created_by = ''mallory''\<rparr>
       = (Inl (HTTPException 401 ''Unauthorized''), store0)
   \<and> update_announcement iso_fragment hex_oid False (WallClock 2030 1 1 12 0 0 0) teachers0
        store0 ''65a1b2c3d4e5f60718293a4b''
        \<lparr>message = Some ''No exam'', start_date = None, expiration_date = None\<rparr> ''mallory''
       = (Inl (HTTPException 401 ''Unauthorized''), store0)
   \<and> delete_announcement hex_oid False teachers0 store0 ''65a1b2c3d4e5f60718293a4b''
        ''mallory''
       = (Inl (HTTPException 401 ''Unauthorized''), store0)"
proof -
  have h: "Str ''mallory'' \<notin> doc_id ` set teachers0"
    by (simp add: teachers0_def)
  show ?thesis
    using h unknown_actor_unauthorized [OF h, of store0
        "\<lparr>AnnouncementCreate.message = ''Free pizza'', start_date = None,
          expiration_date = ''2030-02-01T00:00:00'', created_by = ''mallory''\<rparr>"
        iso_fragment "WallClock 2030 1 1 12 0 0 0" "WallClock 2030 1 1 12 0 0 1"
        "OID ''65a1b2c3d4e5f60718293a4d''" hex_oid False "''65a1b2c3d4e5f60718293a4b''"
        "\<lparr>message = Some ''No exam'', start_date = None, expiration_date = None\<rparr>"]
    by simp
qed

section \<open>Listing all announcements\<close>

text \<open>
  Claim C8. For a known teacher, \<^verbatim>\<open>get_all_announcements\<close> returns every announcement
  of the collection (the same documents, each once per occurrence, identifiers rendered
  as strings), ordered by \<^verbatim>\<open>created_at\<close> descending in the store's order on the
  stored values: whatever comes earlier in the result has a \<^verbatim>\<open>created_at\<close> at least
  as large. Where every \<^verbatim>\<open>created_at\<close> is the ISO rendering of a clock reading, as
  \<^verbatim>\<open>create_announcement\<close> writes it, this is the order of the readings: the newest
  comes first.
\<close>

theorem list_all_newest_first:
  assumes "Str username \<in> doc_id ` set teachers"
  shows "\<exists>rs. get_all_announcements teachers announcements username = Inr rs
      \<and> mset rs = mset (map stringify_id announcements)
      \<and> sorted_wrt (\<lambda>a b. bson_key (dict_get a ''created_at'')
                             \<ge> bson_key (dict_get b ''created_at'')) rs
      \<and> (\<forall>t. (\<forall>r\<in>set rs. valid_clock (t r)
                   \<and> dict_get r ''created_at'' = Str (isoformat (t r)))
             \<longrightarrow> sorted_wrt (\<lambda>a b. fields (t a) \<ge> fields (t b)) rs)"
proof -
  let ?s = "sort_desc ''created_at'' announcements"
  let ?rs = "map stringify_id ?s"
  let ?P = "\<lambda>a b. bson_key (dict_get a ''created_at'') \<ge> bson_key (dict_get b ''created_at'')"
  have r: "get_all_announcements teachers announcements username = Inr ?rs"
    using assms by (simp add: get_all_announcements_def teacher_exists_iff find_docs_all)
  have m: "mset ?rs = mset (map stringify_id announcements)"
    by (simp add: sort_desc_mset)
  have "sorted_wrt (\<lambda>a b. bson_key (field_or_null a ''created_at'')
                             \<ge> bson_key (field_or_null b ''created_at'')) ?s"
    by (rule sort_desc_sorted)
  then have s: "sorted_wrt ?P ?rs"
    by (simp add: sorted_wrt_map dict_get_stringify)
  have t: "sorted_wrt (\<lambda>a b. fields (t a) \<ge> fields (t b)) ?rs"
    if h: "\<forall>r\<in>set ?rs. valid_clock (t r) \<and> dict_get r ''created_at'' = Str (isoformat (t r))"
    for t
  proof (rule sorted_wrt_mono_rel[OF _ s])
    fix a b
    assume a: "a \<in> set ?rs" and b: "b \<in> set ?rs" and p: "?P a b"
    from h a b have v: "valid_clock (t a)" "valid_clock (t b)"
      and e: "dict_get a ''created_at'' = Str (isoformat (t a))"
        "dict_get b ''created_at'' = Str (isoformat (t b))"
      by blast+
    from p e have "isoformat (t b) \<le> isoformat (t a)"
      by simp
    then show "fields (t b) \<le> fields (t a)"
      by (rule isoformat_le_imp[OF v(2) v(1)])
  qed
  from r m s t show ?thesis by blast
qed

theorem list_all_newest_first_witness:
  "Str ''teacher1'' \<in> doc_id ` set teachers0
   \<and> get_all_announcements teachers0 store0 ''teacher1''
       = Inr [stringify_id trip_doc, stringify_id exam_doc]
   \<and> mset [stringify_id trip_doc, stringify_id exam_doc] = mset (map stringify_id store0)
   \<and> sorted_wrt (\<lambda>a b. bson_key (dict_get a ''created_at'')
                          \<ge> bson_key (dict_get b ''created_at''))
        [stringify_id trip_doc, stringify_id exam_doc]
   \<and> valid_clock (store0_clock (stringify_id trip_doc))
   \<and> dict_get (stringify_id trip_doc) ''created_at''
       = Str (isoformat (store0_clock (stringify_id trip_doc)))
   \<and> valid_clock (store0_clock (stringify_id exam_doc))
   \<and> dict_get (stringify_id exam_doc) ''created_at''
       = Str (isoformat (store0_clock (stringify_id exam_doc)))
   \<and> sorted_wrt (\<lambda>a b. fields (store0_clock a) \<ge> fields (store0_clock b))
        [stringify_id trip_doc, stringify_id exam_doc]"
proof -
  let ?R = "[stringify_id trip_doc, stringify_id exam_doc]"
  have h: "Str ''teacher1'' \<in> doc_id ` set teachers0"
    by (simp add: teachers0_def)
  have e: "get_all_announcements teachers0 store0 ''teacher1'' = Inr ?R"
    by code_simp
  have k: "store0_clock (stringify_id trip_doc) = WallClock 2030 1 5 9 30 0 0"
    "store0_clock (stringify_id exam_doc) = WallClock 2030 1 1 10 0 0 0"
    by code_simp+
  have v: "valid_clock (WallClock 2030 1 5 9 30 0 0)" "valid_clock (WallClock 2030 1 1 10 0 0 0)"
    by (simp_all add: valid_clock_def days_in_month_def)
  have i: "dict_get (stringify_id trip_doc) ''created_at''
             = Str (isoformat (WallClock 2030 1 5 9 30 0 0))"
    "dict_get (stringify_id exam_doc) ''created_at''
             = Str (isoformat (WallClock 2030 1 1 10 0 0 0))"
    by code_simp+
  from k v i have c: "\<forall>r\<in>set ?R. valid_clock (store0_clock r)
         \<and> dict_get r ''created_at'' = Str (isoformat (store0_clock r))"
    by simp
  from list_all_newest_first [OF h, of store0] obtain rs where
    rs: "get_all_announcements teachers0 store0 ''teacher1'' = Inr rs"
    and m: "mset rs = mset (map stringify_id store0)"
    and s: "sorted_wrt (\<lambda>a b. bson_key (dict_get a ''created_at'')
                          \<ge> bson_key (dict_get b ''created_at'')) rs"
    and t: "\<forall>t. (\<forall>r\<in>set rs. valid_clock (t r)
                   \<and> dict_get r ''created_at'' = Str (isoformat (t r)))
             \<longrightarrow> sorted_wrt (\<lambda>a b. fields (t a) \<ge> fields (t b)) rs"
    by blast
  from rs e have eq: "rs = ?R" by simp
  from t c have o: "sorted_wrt (\<lambda>a b. fields (store0_clock a) \<ge> fields (store0_clock b)) ?R"
    unfolding eq by blast
  from k v i have c': "valid_clock (store0_clock (stringify_id trip_doc))"
    "dict_get (stringify_id trip_doc) ''created_at''
       = Str (isoformat (store0_clock (stringify_id trip_doc)))"
    "valid_clock (store0_clock (stringify_id exam_doc))"
    "dict_get (stringify_id exam_doc) ''created_at''
       = Str (isoformat (store0_clock (stringify_id exam_doc)))"
    by simp_all
  from h e m s c' o show ?thesis
    unfolding eq by (intro conjI)
qed

section \<open>Deleting\<close>

text \<open>
  Identifiers are unique in a collection of the store, and the three writing handlers
  keep them so.
\<close>

lemma ids_stay_distinct:
  assumes d: "distinct (map doc_id announcements)"
  shows "distinct (map doc_id (snd (create_announcement fromisoformat now now' new_id teachers
            announcements c)))"
    and "distinct (map doc_id (snd (update_announcement fromisoformat ObjectId store_fails now
            teachers announcements announcement_id u username)))"
    and "distinct (map doc_id (snd (delete_announcement ObjectId store_fails teachers
            announcements announcement_id username)))"
proof -
  from d show "distinct (map doc_id (snd (create_announcement fromisoformat now now' new_id
      teachers announcements c)))"
    by (auto simp: create_announcement_def insert_one_def Let_def split: sum.splits)
next
  show "distinct (map doc_id (snd (update_announcement fromisoformat ObjectId store_fails now
      teachers announcements announcement_id u username)))"
  proof (cases "update_try ObjectId store_fails announcement_id (update_doc u) announcements")
    case (Inl x)
    with d show ?thesis
      by (simp add: update_announcement_def split: sum.splits)
  next
    case (Inr p)
    obtain r ds' where p: "p = (r, ds')" by (cases p)
    with Inr obtain i where
      "find_one_and_update [Field ''_id'' (Eq (Oid i))] (update_doc u) announcements = (r, ds')"
      by (auto simp: update_try_def split: option.splits if_splits)
    from find_one_and_update_ids[OF this] d have "distinct (map doc_id ds')" by simp
    with d Inr p show ?thesis
      by (simp add: update_announcement_def split: sum.splits option.splits)
  qed
next
  show "distinct (map doc_id (snd (delete_announcement ObjectId store_fails teachers
      announcements announcement_id username)))"
  proof (cases "delete_try ObjectId store_fails announcement_id announcements")
    case (Inl x)
    with d show ?thesis
      by (simp add: delete_announcement_def)
  next
    case (Inr p)
    obtain n ds' where p: "p = (n, ds')" by (cases p)
    with Inr obtain i where
      "delete_one [Field ''_id'' (Eq (Oid i))] announcements = (n, ds')"
      by (auto simp: delete_try_def split: option.splits if_splits)
    from delete_one_ids[OF this d] have "distinct (map doc_id ds')" .
    with d Inr p show ?thesis
      by (simp add: delete_announcement_def)
  qed
qed

text \<open>
  Claim C7. For a known teacher: an identifier the \<^verbatim>\<open>ObjectId\<close> constructor rejects
  gives \<^verbatim>\<open>HTTPException(400, "Invalid announcement ID")\<close>; a well-formed identifier that
  no announcement carries gives \<^verbatim>\<open>HTTPException(404, "Announcement not found")\<close>; in
  both cases the collection is unchanged. Hence, identifiers being unique in the
  collection, deleting an existing announcement succeeds and deleting it again gives the
  404. (The second and third part are for a store operation that does not fail.)
\<close>

theorem delete_error_semantics:
  assumes auth: "Str username \<in> doc_id ` set teachers"
  shows "(ObjectId announcement_id = None \<longrightarrow>
            delete_announcement ObjectId store_fails teachers announcements announcement_id
              username
            = (Inl (HTTPException 400 ''Invalid announcement ID''), announcements))
       \<and> (\<forall>i. ObjectId announcement_id = Some i \<and> Oid i \<notin> doc_id ` set announcements \<longrightarrow>
            delete_announcement ObjectId False teachers announcements announcement_id username
            = (Inl (HTTPException 404 ''Announcement not found''), announcements))
       \<and> (\<forall>i. ObjectId announcement_id = Some i \<and> Oid i \<in> doc_id ` set announcements
              \<and> distinct (map doc_id announcements) \<longrightarrow>
            (\<exists>announcements'.
               delete_announcement ObjectId False teachers announcements announcement_id
                 username
               = (Inr [(''message'', Str ''Announcement deleted successfully'')],
                  announcements')
               \<and> delete_announcement ObjectId False teachers announcements' announcement_id
                   username
                 = (Inl (HTTPException 404 ''Announcement not found''), announcements')))"
proof (intro conjI allI impI)
  assume "ObjectId announcement_id = None"
  with auth show "delete_announcement ObjectId store_fails teachers announcements
      announcement_id username
    = (Inl (HTTPException 400 ''Invalid announcement ID''), announcements)"
    by (simp add: delete_announcement_def delete_try_def teacher_exists_iff)
next
  fix i
  assume a: "ObjectId announcement_id = Some i \<and> Oid i \<notin> doc_id ` set announcements"
  then have "\<forall>y\<in>set announcements. \<not> matches [Field ''_id'' (Eq (Oid i))] y"
    using no_match_id[of announcements "Oid i"] by blast
  then have "delete_one [Field ''_id'' (Eq (Oid i))] announcements = (0, announcements)"
    by (rule delete_one_miss)
  with a auth show "delete_announcement ObjectId False teachers announcements announcement_id
      username
    = (Inl (HTTPException 404 ''Announcement not found''), announcements)"
    by (simp add: delete_announcement_def delete_try_def teacher_exists_iff)
next
  fix i
  let ?q = "[Field ''_id'' (Eq (Oid i))]"
  assume a: "ObjectId announcement_id = Some i \<and> Oid i \<in> doc_id ` set announcements
    \<and> distinct (map doc_id announcements)"
  then obtain d where d: "d \<in> set announcements" "matches ?q d"
    by (auto simp: matches_id)
  from delete_one_hit[OF d] obtain pre x post where
    split: "announcements = pre @ x # post" and x: "matches ?q x"
    and del: "delete_one ?q announcements = (1, pre @ post)"
    by blast
  from a split x have "Oid i \<notin> doc_id ` set (pre @ post)"
    by (auto simp: matches_id)
  then have "\<forall>y\<in>set (pre @ post). \<not> matches ?q y"
    using no_match_id[of "pre @ post" "Oid i"] by blast
  then have del2: "delete_one ?q (pre @ post) = (0, pre @ post)"
    by (rule delete_one_miss)
  from a auth del have first:
    "delete_announcement ObjectId False teachers announcements announcement_id username
       = (Inr [(''message'', Str ''Announcement deleted successfully'')], pre @ post)"
    by (simp add: delete_announcement_def delete_try_def teacher_exists_iff)
  from a auth del2 have second:
    "delete_announcement ObjectId False teachers (pre @ post) announcement_id username
       = (Inl (HTTPException 404 ''Announcement not found''), pre @ post)"
    by (simp add: delete_announcement_def delete_try_def teacher_exists_iff)
  from first second show "\<exists>announcements'.
       delete_announcement ObjectId False teachers announcements announcement_id username
         = (Inr [(''message'', Str ''Announcement deleted successfully'')], announcements')
       \<and> delete_announcement ObjectId False teachers announcements' announcement_id username
         = (Inl (HTTPException 404 ''Announcement not found''), announcements')"
    by blast
qed

theorem delete_error_semantics_witness:
  "Str ''teacher1'' \<in> doc_id ` set teachers0
   \<and> hex_oid ''not-an-id'' = None
   \<and> delete_announcement hex_oid False teachers0 store0 ''not-an-id'' ''teacher1''
       = (Inl (HTTPException 400 ''Invalid announcement ID''), store0)
   \<and> hex_oid ''65a1b2c3d4e5f60718293a4d'' = Some (OID ''65a1b2c3d4e5f60718293a4d'')
   \<and> Oid (OID ''65a1b2c3d4e5f60718293a4d'') \<notin> doc_id ` set store0
   \<and> delete_announcement hex_oid False teachers0 store0 ''65a1b2c3d4e5f60718293a4d''
        ''teacher1''
       = (Inl (HTTPException 404 ''Announcement not found''), store0)
   \<and> hex_oid ''65a1b2c3d4e5f60718293a4b'' = Some exam_id
   \<and> Oid exam_id \<in> doc_id ` set store0
   \<and> distinct (map doc_id store0)
   \<and> (\<exists>announcements'.
         delete_announcement hex_oid False teachers0 store0 ''65a1b2c3d4e5f60718293a4b''
           ''teacher1''
         = (Inr [(''message'', Str ''Announcement deleted successfully'')], announcements')
         \<and> delete_announcement hex_oid False teachers0 announcements'
             ''65a1b2c3d4e5f60718293a4b'' ''teacher1''
           = (Inl (HTTPException 404 ''Announcement not found''), announcements'))"
proof -
  have h: "Str ''teacher1'' \<in> doc_id ` set teachers0"
    by (simp add: teachers0_def)
  have a1: "hex_oid ''not-an-id'' = None"
    by code_simp
  have a2: "hex_oid ''65a1b2c3d4e5f60718293a4d'' = Some (OID ''65a1b2c3d4e5f60718293a4d'')"
    by code_simp
  have a3: "Oid (OID ''65a1b2c3d4e5f60718293a4d'') \<notin> doc_id ` set store0"
    by code_simp
  have a4: "hex_oid ''65a1b2c3d4e5f60718293a4b'' = Some exam_id"
    by code_simp
  have a5: "Oid exam_id \<in> doc_id ` set store0"
    by code_simp
  have a6: "distinct (map doc_id store0)"
    by code_simp
  note t1 = delete_error_semantics [OF h, of hex_oid "''not-an-id''" False store0]
  note t2 = delete_error_semantics [OF h, of hex_oid "''65a1b2c3d4e5f60718293a4d''" False store0]
  note t3 = delete_error_semantics [OF h, of hex_oid "''65a1b2c3d4e5f60718293a4b''" False store0]
  from t1 a1 have c1: "delete_announcement hex_oid False teachers0 store0 ''not-an-id''
      ''teacher1'' = (Inl (HTTPException 400 ''Invalid announcement ID''), store0)"
    by blast
  from t2 a2 a3 have c2: "delete_announcement hex_oid False teachers0 store0
      ''65a1b2c3d4e5f60718293a4d'' ''teacher1''
      = (Inl (HTTPException 404 ''Announcement not found''), store0)"
    by blast
  from t3 a4 a5 a6 have c3: "\<exists>announcements'.
         delete_announcement hex_oid False teachers0 store0 ''65a1b2c3d4e5f60718293a4b''
           ''teacher1''
         = (Inr [(''message'', Str ''Announcement deleted successfully'')], announcements')
         \<and> delete_announcement hex_oid False teachers0 announcements'
             ''65a1b2c3d4e5f60718293a4b'' ''teacher1''
           = (Inl (HTTPException 404 ''Announcement not found''), announcements')"
    by blast
  from h a1 a2 a3 a4 a5 a6 c1 c2 c3 show ?thesis by blast
qed

section \<open>Failures of the lookup by identifier\<close>

text \<open>
  Claim C9. In \<^verbatim>\<open>update_announcement\<close> and \<^verbatim>\<open>delete_announcement\<close>, whatever the block
  around the store operation raises, be it the constructor rejecting the identifier or
  the store operation failing, the handler answers with the one error
  \<^verbatim>\<open>HTTPException(400, "Invalid announcement ID")\<close>. (For the update, the request has
  passed the checks that come before the block.)
\<close>

theorem lookup_failure_is_invalid_id:
  assumes auth: "Str username \<in> doc_id ` set teachers"
    and fails: "ObjectId announcement_id = None \<or> store_fails"
  shows "(update_doc u \<noteq> [] \<and> update_validate_dates fromisoformat now u = Inr () \<longrightarrow>
            update_announcement fromisoformat ObjectId store_fails now teachers announcements
              announcement_id u username
            = (Inl (HTTPException 400 ''Invalid announcement ID''), announcements))
       \<and> delete_announcement ObjectId store_fails teachers announcements announcement_id
           username
         = (Inl (HTTPException 400 ''Invalid announcement ID''), announcements)"
  using assms
  by (auto simp: update_announcement_def update_try_def delete_announcement_def delete_try_def
      teacher_exists_iff split: option.splits)

theorem lookup_failure_is_invalid_id_witness:
  "Str ''teacher1'' \<in> doc_id ` set teachers0
   \<and> (hex_oid ''65a1b2c3d4e5f60718293a4b'' = None \<or> True)
   \<and> update_doc \<lparr>message = Some ''Exam moved'', start_date = None, expiration_date = None\<rparr>
       \<noteq> []
   \<and> update_validate_dates iso_fragment (WallClock 2030 1 1 12 0 0 0)
        \<lparr>message = Some ''Exam moved'', start_date = None, expiration_date = None\<rparr> = Inr ()
   \<and> update_announcement iso_fragment hex_oid True (WallClock 2030 1 1 12 0 0 0) teachers0
        store0 ''65a1b2c3d4e5f60718293a4b''
        \<lparr>message = Some ''Exam moved'', start_date = None, expiration_date = None\<rparr>
        ''teacher1''
       = (Inl (HTTPException 400 ''Invalid announcement ID''), store0)
   \<and> delete_announcement hex_oid True teachers0 store0 ''65a1b2c3d4e5f60718293a4b''
        ''teacher1''
       = (Inl (HTTPException 400 ''Invalid announcement ID''), store0)
   \<and> (hex_oid ''not-an-id'' = None \<or> False)
   \<and> delete_announcement hex_oid False teachers0 store0 ''not-an-id'' ''teacher1''
       = (Inl (HTTPException 400 ''Invalid announcement ID''), store0)"
proof -
  have h: "Str ''teacher1'' \<in> doc_id ` set teachers0"
    by (simp add: teachers0_def)
  have f: "hex_oid ''65a1b2c3d4e5f60718293a4b'' = None \<or> True"
    by simp
  have u: "update_doc \<lparr>message = Some ''Exam moved'', start_date = None,
      expiration_date = None\<rparr> \<noteq> []"
    by (simp add: update_doc_def)
  have v: "update_validate_dates iso_fragment (WallClock 2030 1 1 12 0 0 0)
      \<lparr>message = Some ''Exam moved'', start_date = None, expiration_date = None\<rparr> = Inr ()"
    by (simp add: update_validate_dates_def update_check_expiration_def
        update_check_order_def)
  have g: "hex_oid ''not-an-id'' = None \<or> False"
    by code_simp
  from g lookup_failure_is_invalid_id [where ObjectId = hex_oid
      and announcement_id = "''not-an-id''" and store_fails = False
      and announcements = store0, OF h g]
  have m: "delete_announcement hex_oid False teachers0 store0 ''not-an-id'' ''teacher1''
       = (Inl (HTTPException 400 ''Invalid announcement ID''), store0)"
    by blast
  from m g h f u v lookup_failure_is_invalid_id [where ObjectId = hex_oid
      and announcement_id = "''65a1b2c3d4e5f60718293a4b''" and store_fails = True
      and u = "\<lparr>message = Some ''Exam moved'', start_date = None, expiration_date = None\<rparr>"
      and fromisoformat = iso_fragment and now = "WallClock 2030 1 1 12 0 0 0"
      and announcements = store0, OF h f]
  show ?thesis by blast
qed

section \<open>Updating\<close>

lemma doc_id_apply_set: "doc_id (apply_set upd d) = doc_id d"
  by (simp add: apply_set_def)

lemma get_field_apply_set:
  "get_field (apply_set (update_doc u) d) k =
     (if k = ''message'' \<and> message u \<noteq> None then map_option Str (message u)
      else if k = ''start_date'' \<and> start_date u \<noteq> None then map_option Str (start_date u)
      else if k = ''expiration_date'' \<and> expiration_date u \<noteq> None
        then map_option Str (expiration_date u)
      else get_field d k)"
  by (cases d) (simp add: apply_set_def update_doc_def update_conv' split: option.splits)

lemma update_success:
  assumes "update_announcement fromisoformat ObjectId store_fails now teachers announcements
             announcement_id u username = (Inr result, announcements')"
  shows "\<exists>i pre d post. ObjectId announcement_id = Some i \<and> \<not> store_fails
      \<and> announcements = pre @ d # post \<and> (\<forall>x\<in>set pre. doc_id x \<noteq> Oid i)
      \<and> doc_id d = Oid i
      \<and> announcements' = pre @ apply_set (update_doc u) d # post
      \<and> result = stringify_id (apply_set (update_doc u) d)
      \<and> Str username \<in> doc_id ` set teachers \<and> update_doc u \<noteq> []
      \<and> update_validate_dates fromisoformat now u = Inr ()"
proof -
  from assms have auth: "Str username \<in> doc_id ` set teachers"
    and ne: "update_doc u \<noteq> []"
    by (auto simp: update_announcement_def teacher_exists_iff split: if_splits)
  with assms have val: "update_validate_dates fromisoformat now u = Inr ()"
    by (auto simp: update_announcement_def teacher_exists_iff split: sum.splits)
  with assms auth ne obtain i r where
    i: "ObjectId announcement_id = Some i" and sf: "\<not> store_fails"
    and f: "find_one_and_update [Field ''_id'' (Eq (Oid i))] (update_doc u) announcements
              = (Some r, announcements')"
    and res: "result = stringify_id r"
    by (auto simp: update_announcement_def update_try_def teacher_exists_iff
        split: sum.splits option.splits if_splits prod.splits)
  from find_one_and_update_Some[OF f] obtain pre d post where
    "announcements = pre @ d # post" "\<forall>x\<in>set pre. \<not> matches [Field ''_id'' (Eq (Oid i))] x"
    "matches [Field ''_id'' (Eq (Oid i))] d" "r = apply_set (update_doc u) d"
    "announcements' = pre @ r # post"
    by blast
  with i sf res auth ne val show ?thesis
    by (auto simp: matches_id)
qed

lemma validate_without_expiration:
  "expiration_date u = None \<Longrightarrow> update_validate_dates fromisoformat now u = Inr ()"
  by (simp add: update_validate_dates_def update_check_expiration_def update_check_order_def
      split: option.splits)

lemma update_without_expiration_any_parser:
  "expiration_date u = None \<Longrightarrow>
     update_announcement fromisoformat ObjectId store_fails now teachers announcements
       announcement_id u username
     = update_announcement other_parser ObjectId store_fails now teachers announcements
         announcement_id u username"
  by (simp add: update_announcement_def validate_without_expiration)

text \<open>
  Claim C6. A successful update changes one announcement, the first one carrying the
  identifier, and nothing else in the collection. On that announcement each of
  \<^verbatim>\<open>message\<close>, \<^verbatim>\<open>start_date\<close> and \<^verbatim>\<open>expiration_date\<close> takes the supplied value when the
  request supplies one and keeps its prior value otherwise; every other field (among
  them \<^verbatim>\<open>created_by\<close> and \<^verbatim>\<open>created_at\<close>) and the identifier keep their prior values.
  In particular an update of the message alone leaves both dates as they were. The
  handler returns the announcement as it is afterwards.
\<close>

theorem update_frame:
  assumes "update_announcement fromisoformat ObjectId store_fails now teachers announcements
             announcement_id u username = (Inr result, announcements')"
  shows "\<exists>i pre d d' post. ObjectId announcement_id = Some i
      \<and> announcements = pre @ d # post \<and> doc_id d = Oid i
      \<and> (\<forall>x\<in>set pre. doc_id x \<noteq> Oid i)
      \<and> announcements' = pre @ d' # post \<and> result = stringify_id d'
      \<and> doc_id d' = doc_id d
      \<and> get_field d' ''message''
          = (case message u of None \<Rightarrow> get_field d ''message'' | Some m \<Rightarrow> Some (Str m))
      \<and> get_field d' ''start_date''
          = (case start_date u of None \<Rightarrow> get_field d ''start_date''
             | Some s \<Rightarrow> Some (Str s))
      \<and> get_field d' ''expiration_date''
          = (case expiration_date u of None \<Rightarrow> get_field d ''expiration_date''
             | Some e \<Rightarrow> Some (Str e))
      \<and> (\<forall>k. k \<notin> {''message'', ''start_date'', ''expiration_date''}
             \<longrightarrow> get_field d' k = get_field d k)"
proof -
  from update_success[OF assms] obtain i pre d post where
    s: "ObjectId announcement_id = Some i" "announcements = pre @ d # post"
      "\<forall>x\<in>set pre. doc_id x \<noteq> Oid i" "doc_id d = Oid i"
      "announcements' = pre @ apply_set (update_doc u) d # post"
      "result = stringify_id (apply_set (update_doc u) d)"
    by blast
  let ?d' = "apply_set (update_doc u) d"
  have f: "doc_id ?d' = doc_id d"
    "get_field ?d' ''message''
       = (case message u of None \<Rightarrow> get_field d ''message'' | Some m \<Rightarrow> Some (Str m))"
    "get_field ?d' ''start_date''
       = (case start_date u of None \<Rightarrow> get_field d ''start_date'' | Some s \<Rightarrow> Some (Str s))"
    "get_field ?d' ''expiration_date''
       = (case expiration_date u of None \<Rightarrow> get_field d ''expiration_date''
          | Some e \<Rightarrow> Some (Str e))"
    "\<forall>k. k \<notin> {''message'', ''start_date'', ''expiration_date''}
       \<longrightarrow> get_field ?d' k = get_field d k"
    by (simp_all add: doc_id_apply_set get_field_apply_set split: option.splits)
  from s f show ?thesis
    by (intro exI[of _ i] exI[of _ pre] exI[of _ d] exI[of _ ?d'] exI[of _ post]) simp
qed

theorem update_frame_witness:
  "update_announcement iso_fragment hex_oid False (WallClock 2030 1 1 12 0 0 0) teachers0
        store0 ''65a1b2c3d4e5f60718293a4b''
        \<lparr>message = Some ''Exam moved'', start_date = None, expiration_date = None\<rparr>
        ''teacher1''
       = (Inr (stringify_id moved_exam_doc), [moved_exam_doc, trip_doc])
   \<and> (\<exists>i pre d d' post. hex_oid ''65a1b2c3d4e5f60718293a4b'' = Some i
      \<and> store0 = pre @ d # post \<and> doc_id d = Oid i
      \<and> (\<forall>x\<in>set pre. doc_id x \<noteq> Oid i)
      \<and> [moved_exam_doc, trip_doc] = pre @ d' # post
      \<and> stringify_id moved_exam_doc = stringify_id d'
      \<and> doc_id d' = doc_id d
      \<and> get_field d' ''message'' = Some (Str ''Exam moved'')
      \<and> get_field d' ''start_date'' = get_field d ''start_date''
      \<and> get_field d' ''expiration_date'' = get_field d ''expiration_date''
      \<and> (\<forall>k. k \<notin> {''message'', ''start_date'', ''expiration_date''}
             \<longrightarrow> get_field d' k = get_field d k))"
proof -
  have e: "update_announcement iso_fragment hex_oid False (WallClock 2030 1 1 12 0 0 0)
        teachers0 store0 ''65a1b2c3d4e5f60718293a4b''
        \<lparr>message = Some ''Exam moved'', start_date = None, expiration_date = None\<rparr>
        ''teacher1''
       = (Inr (stringify_id moved_exam_doc), [moved_exam_doc, trip_doc])"
    by code_simp
  from e update_frame [OF e] show ?thesis by simp
qed

text \<open>
  Claim C10. When an update supplies \<^verbatim>\<open>start_date\<close> and no \<^verbatim>\<open>expiration_date\<close>, by a
  known teacher and for the identifier of a stored announcement, the call succeeds for
  every string: the string is stored and returned as it is. The parser plays no part:
  the outcome is the same with a parser that rejects every string. Whatever else
  happens (including a failing store), such a call does not raise the invalid-format
  error.
\<close>

theorem update_start_date_unparsed:
  assumes auth: "Str username \<in> doc_id ` set teachers"
    and noexp: "expiration_date u = None"
    and start: "start_date u = Some s"
    and wf: "ObjectId announcement_id = Some i"
    and ex: "Oid i \<in> doc_id ` set announcements"
  shows "(\<exists>result announcements' d'.
            update_announcement fromisoformat ObjectId False now teachers announcements
              announcement_id u username = (Inr result, announcements')
            \<and> d' \<in> set announcements' \<and> doc_id d' = Oid i
            \<and> get_field d' ''start_date'' = Some (Str s)
            \<and> dict_get result ''start_date'' = Str s)
       \<and> update_announcement fromisoformat ObjectId False now teachers announcements
            announcement_id u username
          = update_announcement (\<lambda>_. None) ObjectId False now teachers announcements
              announcement_id u username
       \<and> fst (update_announcement fromisoformat ObjectId store_fails now teachers
              announcements announcement_id u username)
          \<noteq> Inl (HTTPException 400 ''Invalid date format'')"
proof (intro conjI)
  let ?q = "[Field ''_id'' (Eq (Oid i))]"
  from ex obtain d where "d \<in> set announcements" "matches ?q d"
    by (auto simp: matches_id)
  from find_one_and_update_hit[OF this] obtain r ds' where
    f: "find_one_and_update ?q (update_doc u) announcements = (Some r, ds')"
    by blast
  from start have ne: "update_doc u \<noteq> []"
    by (simp add: update_doc_def split: option.splits)
  from auth ne wf f noexp have run:
    "update_announcement fromisoformat ObjectId False now teachers announcements
       announcement_id u username = (Inr (stringify_id r), ds')"
    by (simp add: update_announcement_def update_try_def teacher_exists_iff
        validate_without_expiration)
  from find_one_and_update_Some[OF f] obtain pre d0 post where
    sh: "matches ?q d0" "r = apply_set (update_doc u) d0" "ds' = pre @ r # post"
    by blast
  from sh have mem: "r \<in> set ds'" and rid: "doc_id r = Oid i"
    by (simp_all add: matches_id doc_id_apply_set)
  from sh start have fld: "get_field r ''start_date'' = Some (Str s)"
    by (simp add: get_field_apply_set)
  then have "dict_get (stringify_id r) ''start_date'' = Str s"
    by (simp add: dict_get_stringify field_or_null_def)
  with run mem rid fld show "\<exists>result announcements' d'.
      update_announcement fromisoformat ObjectId False now teachers announcements
        announcement_id u username = (Inr result, announcements')
      \<and> d' \<in> set announcements' \<and> doc_id d' = Oid i
      \<and> get_field d' ''start_date'' = Some (Str s)
      \<and> dict_get result ''start_date'' = Str s"
    by blast
next
  from noexp show "update_announcement fromisoformat ObjectId False now teachers announcements
      announcement_id u username
    = update_announcement (\<lambda>_. None) ObjectId False now teachers announcements
        announcement_id u username"
    by (rule update_without_expiration_any_parser)
next
  from noexp show "fst (update_announcement fromisoformat ObjectId store_fails now teachers
      announcements announcement_id u username)
    \<noteq> Inl (HTTPException 400 ''Invalid date format'')"
    by (auto simp: update_announcement_def validate_without_expiration unauthorized_def
        split: sum.splits option.splits prod.splits)
qed

theorem update_start_date_unparsed_witness:
  "Str ''teacher1'' \<in> doc_id ` set teachers0
   \<and> expiration_date
        \<lparr>message = None, start_date = Some ''next Monday'', expiration_date = None\<rparr> = None
   \<and> start_date
        \<lparr>message = None, start_date = Some ''next Monday'', expiration_date = None\<rparr>
       = Some ''next Monday''
   \<and> hex_oid ''65a1b2c3d4e5f60718293a4b'' = Some exam_id
   \<and> Oid exam_id \<in> doc_id ` set store0
   \<and> iso_fragment (replace_Z ''next Monday'') = None
   \<and> (\<exists>result announcements' d'.
         update_announcement iso_fragment hex_oid False (WallClock 2030 1 1 12 0 0 0)
           teachers0 store0 ''65a1b2c3d4e5f60718293a4b''
           \<lparr>message = None, start_date = Some ''next Monday'', expiration_date = None\<rparr>
           ''teacher1'' = (Inr result, announcements')
         \<and> d' \<in> set announcements' \<and> doc_id d' = Oid exam_id
         \<and> get_field d' ''start_date'' = Some (Str ''next Monday'')
         \<and> dict_get result ''start_date'' = Str ''next Monday'')
   \<and> update_announcement iso_fragment hex_oid False (WallClock 2030 1 1 12 0 0 0)
        teachers0 store0 ''65a1b2c3d4e5f60718293a4b''
        \<lparr>message = None, start_date = Some ''next Monday'', expiration_date = None\<rparr>
        ''teacher1''
       = update_announcement (\<lambda>_. None) hex_oid False (WallClock 2030 1 1 12 0 0 0)
           teachers0 store0 ''65a1b2c3d4e5f60718293a4b''
           \<lparr>message = None, start_date = Some ''next Monday'', expiration_date = None\<rparr>
           ''teacher1''
   \<and> update_announcement iso_fragment hex_oid False (WallClock 2030 1 1 12 0 0 0)
        teachers0 store0 ''65a1b2c3d4e5f60718293a4b''
        \<lparr>message = None, start_date = Some ''next Monday'', expiration_date = None\<rparr>
        ''teacher1''
       = (Inr (stringify_id odd_exam_doc), [odd_exam_doc, trip_doc])"
proof -
  let ?u = "\<lparr>message = None, start_date = Some ''next Monday'', expiration_date = None\<rparr>"
  have h1: "Str ''teacher1'' \<in> doc_id ` set teachers0"
    by (simp add: teachers0_def)
  have h2: "expiration_date ?u = None"
    by simp
  have h3: "start_date ?u = Some ''next Monday''"
    by simp
  have h4: "hex_oid ''65a1b2c3d4e5f60718293a4b'' = Some exam_id"
    by code_simp
  have h5: "Oid exam_id \<in> doc_id ` set store0"
    by code_simp
  have p: "iso_fragment (replace_Z ''next Monday'') = None"
    by code_simp
  have e: "update_announcement iso_fragment hex_oid False (WallClock 2030 1 1 12 0 0 0)
        teachers0 store0 ''65a1b2c3d4e5f60718293a4b'' ?u ''teacher1''
       = (Inr (stringify_id odd_exam_doc), [odd_exam_doc, trip_doc])"
    by code_simp
  note t = update_start_date_unparsed [where fromisoformat = iso_fragment
      and now = "WallClock 2030 1 1 12 0 0 0" and ObjectId = hex_oid
      and announcement_id = "''65a1b2c3d4e5f60718293a4b''" and u = ?u and store_fails = False, OF h1 h2 h3 h4 h5]
  from h1 h2 h3 h4 h5 p e t show ?thesis by blast
qed

section \<open>The window invariant\<close>

lemma dt_ge_False_lt: "dt_ge a b = Inr False \<Longrightarrow> dt_lt a b = Inr True"
  by (auto simp: dt_ge_def dt_lt_def split: option.splits)

lemma create_success:
  assumes "create_announcement fromisoformat now now' new_id teachers announcements c
             = (Inr result, announcements')"
  shows "Str (created_by c) \<in> doc_id ` set teachers
      \<and> AnnouncementCreate.expiration_date c \<noteq> []
      \<and> create_validate_dates fromisoformat now c = Inr ()
      \<and> Oid new_id \<notin> doc_id ` set announcements
      \<and> announcements' = announcements @ [Document (Oid new_id) (announcement_doc c now')]
      \<and> result = announcement_doc c now' @ [(''_id'', Str (str_oid new_id))]"
  using assms
  by (auto simp: create_announcement_def teacher_exists_iff insert_one_def Let_def
      split: if_splits sum.splits)

lemma create_validate_window:
  assumes "create_validate_dates fromisoformat now c = Inr ()"
    and "AnnouncementCreate.start_date c \<noteq> Some []"
  shows "window_ok fromisoformat (Document i (announcement_doc c now'))"
proof (cases "AnnouncementCreate.start_date c")
  case None
  then show ?thesis
    by (simp add: window_ok_def announcement_doc_def)
next
  case (Some s)
  with assms have ne: "s \<noteq> []" by simp
  from assms(1) Some ne obtain expiration start where
    "parse_date fromisoformat (AnnouncementCreate.expiration_date c) = Some expiration"
    "parse_date fromisoformat s = Some start"
    "dt_ge start expiration = Inr False"
    by (auto simp: create_validate_dates_def split: option.splits sum.splits bool.splits)
  with Some show ?thesis
    by (simp add: window_ok_def announcement_doc_def dt_ge_False_lt)
qed

lemma update_check_order_window:
  assumes "update_check_order fromisoformat u = Inr ()"
    and "start_date u = Some s" "s \<noteq> []" "expiration_date u = Some e" "e \<noteq> []"
  shows "\<exists>start expiration. parse_date fromisoformat s = Some start
      \<and> parse_date fromisoformat e = Some expiration \<and> dt_lt start expiration = Inr True"
  using assms
  by (auto simp: update_check_order_def dt_ge_False_lt
      split: option.splits sum.splits bool.splits)

text \<open>
  Claim C2, as the code has it. An announcement inserted by a creation whose
  \<^verbatim>\<open>start_date\<close> is absent or a non-empty string satisfies the window invariant: the
  start date, if there is one, parses to a time strictly before the expiration date.
  The announcement left by an update that supplies both a non-empty \<^verbatim>\<open>start_date\<close> and
  a non-empty \<^verbatim>\<open>expiration_date\<close> satisfies it too. Nothing is said of an update that
  supplies only one of the two dates: the handler does not read the stored other one.
\<close>

theorem window_after_create_and_full_update:
  "(create_announcement fromisoformat now now' new_id teachers announcements c
      = (Inr result, announcements')
    \<and> AnnouncementCreate.start_date c \<noteq> Some [] \<longrightarrow>
      announcements' = announcements @ [Document (Oid new_id) (announcement_doc c now')]
      \<and> window_ok fromisoformat (Document (Oid new_id) (announcement_doc c now')))
   \<and> (update_announcement fromisoformat ObjectId store_fails now teachers announcements
        announcement_id u username = (Inr result, announcements')
      \<and> truthy (start_date u) \<and> truthy (expiration_date u) \<longrightarrow>
        (\<exists>d'\<in>set announcements'. result = stringify_id d' \<and> window_ok fromisoformat d'))"
proof (intro conjI impI)
  assume a: "create_announcement fromisoformat now now' new_id teachers announcements c
      = (Inr result, announcements')
    \<and> AnnouncementCreate.start_date c \<noteq> Some []"
  with create_success[of fromisoformat now now' new_id teachers announcements c result
      announcements']
  have v: "create_validate_dates fromisoformat now c = Inr ()"
    and s: "announcements' = announcements @ [Document (Oid new_id) (announcement_doc c now')]"
    by simp_all
  from s show "announcements' = announcements @ [Document (Oid new_id) (announcement_doc c now')]" .
  from v a show "window_ok fromisoformat (Document (Oid new_id) (announcement_doc c now'))"
    by (simp add: create_validate_window)
next
  assume a: "update_announcement fromisoformat ObjectId store_fails now teachers announcements
        announcement_id u username = (Inr result, announcements')
      \<and> truthy (start_date u) \<and> truthy (expiration_date u)"
  then obtain s e where se: "start_date u = Some s" "s \<noteq> []" "expiration_date u = Some e"
    "e \<noteq> []"
    by (cases "start_date u"; cases "expiration_date u") auto
  from a have run: "update_announcement fromisoformat ObjectId store_fails now teachers
      announcements announcement_id u username = (Inr result, announcements')"
    by simp
  from update_success[OF run] obtain pre d post where
    sh: "announcements' = pre @ apply_set (update_doc u) d # post"
      "result = stringify_id (apply_set (update_doc u) d)"
      "update_validate_dates fromisoformat now u = Inr ()"
    by blast
  let ?d' = "apply_set (update_doc u) d"
  from sh(3) have "update_check_order fromisoformat u = Inr ()"
    by (simp add: update_validate_dates_def split: sum.splits)
  from update_check_order_window[OF this se] obtain start expiration where
    p: "parse_date fromisoformat s = Some start" "parse_date fromisoformat e = Some expiration"
      "dt_lt start expiration = Inr True"
    by blast
  from se have "get_field ?d' ''start_date'' = Some (Str s)"
    "get_field ?d' ''expiration_date'' = Some (Str e)"
    by (simp_all add: get_field_apply_set)
  with p have "window_ok fromisoformat ?d'"
    by (simp add: window_ok_def)
  with sh show "\<exists>d'\<in>set announcements'. result = stringify_id d' \<and> window_ok fromisoformat d'"
    by auto
qed

theorem window_after_create_and_full_update_witness:
  "create_announcement iso_fragment (WallClock 2030 1 5 9 30 0 0) (WallClock 2030 1 5 9 30 0 0)
       trip_id teachers0 [exam_doc]
       \<lparr>AnnouncementCreate.message = ''Field trip'',
        start_date = Some ''2030-03-01T00:00:00'',
        expiration_date = ''2030-06-01T00:00:00'', created_by = ''teacher1''\<rparr>
     = (Inr (doc_fields trip_doc @ [(''_id'', Str ''65a1b2c3d4e5f60718293a4c'')]), store0)
   \<and> Some ''2030-03-01T00:00:00'' \<noteq> Some []
   \<and> window_ok iso_fragment trip_doc
   \<and> update_announcement iso_fragment hex_oid False (WallClock 2030 1 10 8 0 0 0) teachers0
        store0 ''65a1b2c3d4e5f60718293a4c''
        \<lparr>message = None, start_date = Some ''2030-04-01T00:00:00'',
         expiration_date = Some ''2030-05-01T00:00:00''\<rparr> ''teacher1''
     = (Inr (stringify_id (apply_set
               [(''start_date'', Str ''2030-04-01T00:00:00''),
                (''expiration_date'', Str ''2030-05-01T00:00:00'')] trip_doc)),
        [exam_doc, apply_set
               [(''start_date'', Str ''2030-04-01T00:00:00''),
                (''expiration_date'', Str ''2030-05-01T00:00:00'')] trip_doc])
   \<and> truthy (Some ''2030-04-01T00:00:00'') \<and> truthy (Some ''2030-05-01T00:00:00'')
   \<and> (\<exists>d'\<in>set [exam_doc, apply_set
               [(''start_date'', Str ''2030-04-01T00:00:00''),
                (''expiration_date'', Str ''2030-05-01T00:00:00'')] trip_doc].
         stringify_id (apply_set
               [(''start_date'', Str ''2030-04-01T00:00:00''),
                (''expiration_date'', Str ''2030-05-01T00:00:00'')] trip_doc) = stringify_id d'
         \<and> window_ok iso_fragment d')"
proof -
  let ?c = "\<lparr>AnnouncementCreate.message = ''Field trip'',
        start_date = Some ''2030-03-01T00:00:00'',
        expiration_date = ''2030-06-01T00:00:00'', created_by = ''teacher1''\<rparr>"
  let ?u = "\<lparr>message = None, start_date = Some ''2030-04-01T00:00:00'',
         expiration_date = Some ''2030-05-01T00:00:00''\<rparr>"
  let ?d = "apply_set [(''start_date'', Str ''2030-04-01T00:00:00''),
                (''expiration_date'', Str ''2030-05-01T00:00:00'')] trip_doc"
  have c: "create_announcement iso_fragment (WallClock 2030 1 5 9 30 0 0)
       (WallClock 2030 1 5 9 30 0 0) trip_id teachers0 [exam_doc] ?c
     = (Inr (doc_fields trip_doc @ [(''_id'', Str ''65a1b2c3d4e5f60718293a4c'')]), store0)"
    by code_simp
  have cs: "AnnouncementCreate.start_date ?c \<noteq> Some []"
    by simp
  have d: "Document (Oid trip_id) (announcement_doc ?c (WallClock 2030 1 5 9 30 0 0)) = trip_doc"
    by code_simp
  have u: "update_announcement iso_fragment hex_oid False (WallClock 2030 1 10 8 0 0 0)
        teachers0 store0 ''65a1b2c3d4e5f60718293a4c'' ?u ''teacher1''
     = (Inr (stringify_id ?d), [exam_doc, ?d])"
    by code_simp
  have us: "truthy (start_date ?u) \<and> truthy (expiration_date ?u)"
    by simp
  note t = window_after_create_and_full_update [where fromisoformat = iso_fragment]
  from t [where now = "WallClock 2030 1 5 9 30 0 0" and now' = "WallClock 2030 1 5 9 30 0 0"
      and new_id = trip_id and teachers = teachers0 and announcements = "[exam_doc]"
      and c = ?c and result = "doc_fields trip_doc @ [(''_id'', Str ''65a1b2c3d4e5f60718293a4c'')]"
      and announcements' = store0] c cs d
  have w1: "window_ok iso_fragment trip_doc"
    by simp
  from t [where ObjectId = hex_oid and store_fails = False
      and now = "WallClock 2030 1 10 8 0 0 0" and teachers = teachers0
      and announcements = store0 and announcement_id = "''65a1b2c3d4e5f60718293a4c''"
      and u = ?u and username = "''teacher1''" and result = "stringify_id ?d"
      and announcements' = "[exam_doc, ?d]"] u us
  have w2: "\<exists>d'\<in>set [exam_doc, ?d]. stringify_id ?d = stringify_id d'
      \<and> window_ok iso_fragment d'"
    by blast
  from c u w1 w2 show ?thesis by simp
qed

text \<open>
  The invariant as claim C2 states it, for every creation and every update that touches
  a date, fails: moving only the start of the trip announcement past its expiration, or
  only its expiration before its start, succeeds and leaves a start that is not before
  the expiration; and a creation with the empty string as \<^verbatim>\<open>start_date\<close> stores a
  start date that is no date.
\<close>

theorem window_invariant_counterexample:
  "window_ok iso_fragment trip_doc
   \<and> update_announcement iso_fragment hex_oid False (WallClock 2030 1 10 8 0 0 0) teachers0
        [trip_doc] ''65a1b2c3d4e5f60718293a4c''
        \<lparr>message = None, start_date = Some ''2031-01-01T00:00:00'', expiration_date = None\<rparr>
        ''teacher1''
       = (Inr (stringify_id late_trip_doc), [late_trip_doc])
   \<and> \<not> window_ok iso_fragment late_trip_doc
   \<and> update_announcement iso_fragment hex_oid False (WallClock 2030 1 10 8 0 0 0) teachers0
        [trip_doc] ''65a1b2c3d4e5f60718293a4c''
        \<lparr>message = None, start_date = None, expiration_date = Some ''2030-02-01T00:00:00''\<rparr>
        ''teacher1''
       = (Inr (stringify_id short_trip_doc), [short_trip_doc])
   \<and> \<not> window_ok iso_fragment short_trip_doc
   \<and> create_announcement iso_fragment (WallClock 2030 1 10 8 0 0 0)
        (WallClock 2030 1 10 8 0 0 250) assembly_id teachers0 [trip_doc]
        \<lparr>AnnouncementCreate.message = ''Assembly'', start_date = Some [],
         expiration_date = ''2030-02-01T00:00:00'', created_by = ''teacher1''\<rparr>
       = (Inr (doc_fields assembly_doc @ [(''_id'', Str ''65a1b2c3d4e5f60718293a4d'')]),
          [trip_doc, assembly_doc])
   \<and> \<not> window_ok iso_fragment assembly_doc"
  by (intro conjI; code_simp)

section \<open>Creating\<close>

text \<open>
  What holds of a creation: the announcement it stores is listed by
  \<^verbatim>\<open>get_all_announcements\<close>; and when the dates parse to naive datetimes, the checks
  come in the order of the handler, each with its own error.
\<close>

lemma set_sort_desc: "set (sort_desc k coll) = set coll"
  by (simp add: sort_desc_def)

lemma created_is_listed:
  assumes "create_announcement fromisoformat now now' new_id teachers announcements c
             = (Inr result, announcements')"
    and "Str username \<in> doc_id ` set teachers"
  shows "\<exists>rs. get_all_announcements teachers announcements' username = Inr rs
      \<and> stringify_id (Document (Oid new_id) (announcement_doc c now')) \<in> set rs"
proof -
  from create_success[OF assms(1)] have
    "announcements' = announcements @ [Document (Oid new_id) (announcement_doc c now')]"
    by simp
  with assms(2) show ?thesis
    by (simp add: get_all_announcements_def teacher_exists_iff find_docs_all set_sort_desc)
qed

lemma create_validation_naive:
  assumes auth: "Str (created_by c) \<in> doc_id ` set teachers"
  shows "AnnouncementCreate.expiration_date c = [] \<Longrightarrow>
           create_announcement fromisoformat now now' new_id teachers announcements c
           = (Inl (HTTPException 400 ''Expiration date is required''), announcements)"
    and "AnnouncementCreate.expiration_date c \<noteq> [] \<Longrightarrow>
         parse_date fromisoformat (AnnouncementCreate.expiration_date c) = None \<Longrightarrow>
           create_announcement fromisoformat now now' new_id teachers announcements c
           = (Inl (HTTPException 400 ''Invalid date format''), announcements)"
    and "AnnouncementCreate.expiration_date c \<noteq> [] \<Longrightarrow>
         parse_date fromisoformat (AnnouncementCreate.expiration_date c)
           = Some (DateTime e None) \<Longrightarrow> fields e < fields now \<Longrightarrow>
           create_announcement fromisoformat now now' new_id teachers announcements c
           = (Inl (HTTPException 400 ''Expiration date must be in the future''), announcements)"
    and "AnnouncementCreate.expiration_date c \<noteq> [] \<Longrightarrow>
         parse_date fromisoformat (AnnouncementCreate.expiration_date c)
           = Some (DateTime e None) \<Longrightarrow> \<not> fields e < fields now \<Longrightarrow>
         AnnouncementCreate.start_date c = Some s \<Longrightarrow> s \<noteq> [] \<Longrightarrow>
         parse_date fromisoformat s = None \<Longrightarrow>
           create_announcement fromisoformat now now' new_id teachers announcements c
           = (Inl (HTTPException 400 ''Invalid date format''), announcements)"
    and "AnnouncementCreate.expiration_date c \<noteq> [] \<Longrightarrow>
         parse_date fromisoformat (AnnouncementCreate.expiration_date c)
           = Some (DateTime e None) \<Longrightarrow> \<not> fields e < fields now \<Longrightarrow>
         AnnouncementCreate.start_date c = Some s \<Longrightarrow> s \<noteq> [] \<Longrightarrow>
         parse_date fromisoformat s = Some (DateTime b None) \<Longrightarrow> fields e \<le> fields b \<Longrightarrow>
           create_announcement fromisoformat now now' new_id teachers announcements c
           = (Inl (HTTPException 400 ''Start date must be before expiration date''),
              announcements)"
  using auth
  by (simp_all add: create_announcement_def create_validate_dates_def teacher_exists_iff
      invalid_date_format_def dt_lt_def dt_ge_def utcnow_def)

text \<open>
  Claim C1, the round trip of a creation with the listings, at one input. At
  2029-12-31 10:00 a known teacher creates an announcement without start date that
  expires at \<^verbatim>\<open>2030-01-01 23:00:00\<close>, written with a space between date and time. The
  date parses and lies after the clock, so the announcement is stored and
  \<^verbatim>\<open>get_all_announcements\<close> returns it. At 2030-01-01 12:00 the expiration has not yet
  passed, but \<^verbatim>\<open>get_active_announcements\<close> returns nothing: the store compares the
  stored string with \<^verbatim>\<open>2030-01-01T12:00:00\<close>, and a space sorts before \<^verbatim>\<open>T\<close>.
\<close>

theorem create_then_active_space_separator:
  "create_announcement iso_fragment (WallClock 2029 12 31 10 0 0 0)
        (WallClock 2029 12 31 10 0 0 250) assembly_id teachers0 []
        \<lparr>AnnouncementCreate.message = ''Exam tomorrow'', start_date = None,
         expiration_date = ''2030-01-01 23:00:00'', created_by = ''teacher1''\<rparr>
       = (Inr (doc_fields notice_doc @ [(''_id'', Str ''65a1b2c3d4e5f60718293a4d'')]),
          [notice_doc])
   \<and> parse_date iso_fragment ''2030-01-01 23:00:00''
       = Some (DateTime (WallClock 2030 1 1 23 0 0 0) None)
   \<and> dt_lt (utcnow (WallClock 2029 12 31 10 0 0 0))
        (DateTime (WallClock 2030 1 1 23 0 0 0) None) = Inr True
   \<and> dt_lt (utcnow (WallClock 2030 1 1 12 0 0 0))
        (DateTime (WallClock 2030 1 1 23 0 0 0) None) = Inr True
   \<and> get_all_announcements teachers0 [notice_doc] ''teacher1''
       = Inr [stringify_id notice_doc]
   \<and> isoformat (WallClock 2030 1 1 12 0 0 0) = ''2030-01-01T12:00:00''
   \<and> get_active_announcements (WallClock 2030 1 1 12 0 0 0) [notice_doc] = []"
  by (intro conjI; code_simp)

text \<open>
  Claim C4, the validation of a creation, at two inputs. At 2030-01-01 12:00 a known
  teacher sends the expiration date \<^verbatim>\<open>2000-01-01T00:00:00Z\<close>, which is not after the
  current time. With \<^verbatim>\<open>Z\<close> replaced it parses to an aware datetime, the comparison with
  the naive clock reading raises \<^verbatim>\<open>TypeError\<close>, and the handler ends with that exception
  instead of an \<^verbatim>\<open>HTTPException\<close> with status 400; nothing is inserted. And an
  expiration date equal to the clock reading, hence not strictly after it, is accepted
  and the announcement inserted.
\<close>

theorem create_aware_expiration_type_error:
  "parse_date iso_fragment ''2000-01-01T00:00:00Z''
       = Some (DateTime (WallClock 2000 1 1 0 0 0 0) (Some 0))
   \<and> create_announcement iso_fragment (WallClock 2030 1 1 12 0 0 0)
        (WallClock 2030 1 1 12 0 0 250) assembly_id teachers0 store0
        \<lparr>AnnouncementCreate.message = ''Exam tomorrow'', start_date = None,
         expiration_date = ''2000-01-01T00:00:00Z'', created_by = ''teacher1''\<rparr>
       = (Inl TypeError, store0)
   \<and> parse_date iso_fragment ''2030-01-01T12:00:00''
       = Some (utcnow (WallClock 2030 1 1 12 0 0 0))
   \<and> snd (create_announcement iso_fragment (WallClock 2030 1 1 12 0 0 0)
        (WallClock 2030 1 1 12 0 0 250) assembly_id teachers0 store0
        \<lparr>AnnouncementCreate.message = ''Exam tomorrow'', start_date = None,
         expiration_date = ''2030-01-01T12:00:00'', created_by = ''teacher1''\<rparr>)
       = store0 @ [Document (Oid assembly_id)
           [(''message'', Str ''Exam tomorrow''),
            (''start_date'', Null),
            (''expiration_date'', Str ''2030-01-01T12:00:00''),
            (''created_by'', Str ''teacher1''),
            (''created_at'', Str ''2030-01-01T12:00:00.000250'')]]"
  by (intro conjI; code_simp)

end
